theory Spec2Isabelle
  imports Complex_Main "HOL-Library.Multiset"
begin

section \<open>JavaScript values\<close>

text \<open>
  The route handler of \<^verbatim>\<open>src/app/api/scrape/route.ts\<close> works on untyped JSON: the request
  body, the model's reply and every field of an extracted event are \<^verbatim>\<open>any\<close>. A JSON value
  is modelled as it is after \<^verbatim>\<open>JSON.parse\<close>; an object is the list of its own properties
  (one pair per key), \<^verbatim>\<open>undefined\<close> is \<open>None\<close> of \<open>json option\<close>.
  Strings are lists of code units; a \<open>char\<close> stands for one code unit in the range 0..255.
  The source file holds the handler twice, with and without the screenshot; the two differ
  in how long the renderer waits and in what is sent to the model, and in nothing that is
  modelled here. The model follows the first.
\<close>

datatype json =
    JNull
  | JBool bool
  | JNumber real
  | JString string
  | JArray "json list"
  | JObject "(string \<times> json) list"

text \<open>A thrown value: an \<^verbatim>\<open>Error\<close> instance with its message, or anything else.\<close>

datatype exn = Error (message: string) | NonError

definition ebind :: "exn + 'a \<Rightarrow> ('a \<Rightarrow> exn + 'b) \<Rightarrow> exn + 'b" where
  "ebind m f = (case m of Inl e \<Rightarrow> Inl e | Inr x \<Rightarrow> f x)"

text \<open>\<^verbatim>\<open>!v\<close> is \<open>\<not> truthy v\<close>: null, false, 0 and the empty string are falsy.\<close>

fun truthy :: "json \<Rightarrow> bool" where
  "truthy JNull = False"
| "truthy (JBool b) = b"
| "truthy (JNumber n) = (n \<noteq> 0)"
| "truthy (JString s) = (s \<noteq> [])"
| "truthy (JArray xs) = True"
| "truthy (JObject kvs) = True"

fun ToBoolean :: "json option \<Rightarrow> bool" where
  "ToBoolean None = False"
| "ToBoolean (Some v) = truthy v"

text \<open>
  Property read \<^verbatim>\<open>v.k\<close> for the keys the handler reads (none of them is a property of a
  built-in prototype): a \<^verbatim>\<open>TypeError\<close> on null, the own property of an object, and
  \<^verbatim>\<open>undefined\<close> on every other value.
\<close>

fun get_prop :: "json \<Rightarrow> string \<Rightarrow> exn + json option" where
  "get_prop JNull k = Inl (Error ''Cannot read properties of null'')"
| "get_prop (JObject kvs) k = Inr (map_of kvs k)"
| "get_prop (JBool b) k = Inr None"
| "get_prop (JNumber n) k = Inr None"
| "get_prop (JString s) k = Inr None"
| "get_prop (JArray xs) k = Inr None"

text \<open>\<^verbatim>\<open>a || b\<close>, where evaluating \<^verbatim>\<open>b\<close> may throw.\<close>

definition or_else :: "json option \<Rightarrow> exn + json \<Rightarrow> exn + json" where
  "or_else a b = (case a of None \<Rightarrow> b | Some v \<Rightarrow> if truthy v then Inr v else b)"

fun Array_isArray :: "json option \<Rightarrow> bool" where
  "Array_isArray (Some (JArray xs)) = True"
| "Array_isArray v = False"

text \<open>
  The string conversion of a template literal, \<^verbatim>\<open>`${v}`\<close>. A parsed object has no callable
  property of its own: with a \<^verbatim>\<open>toString\<close> key it cannot be converted to a primitive and the
  conversion throws a \<^verbatim>\<open>TypeError\<close>, without one it is \<^verbatim>\<open>[object Object]\<close>. An array is
  the join of its elements, null as the empty string. \<open>nts\<close> is how the engine prints a
  number.
\<close>

fun ToString :: "(real \<Rightarrow> string) \<Rightarrow> json \<Rightarrow> exn + string"
  and join_elements :: "(real \<Rightarrow> string) \<Rightarrow> json list \<Rightarrow> exn + string" where
  "ToString nts JNull = Inr ''null''"
| "ToString nts (JBool b) = Inr (if b then ''true'' else ''false'')"
| "ToString nts (JNumber n) = Inr (nts n)"
| "ToString nts (JString s) = Inr s"
| "ToString nts (JArray xs) = join_elements nts xs"
| "ToString nts (JObject kvs) =
     (case map_of kvs ''toString'' of
        Some f \<Rightarrow> Inl (Error ''Cannot convert object to primitive value'')
      | None \<Rightarrow> Inr ''[object Object]'')"
| "join_elements nts [] = Inr []"
| "join_elements nts (x # xs) =
     ebind (if x = JNull then Inr [] else ToString nts x) (\<lambda>next.
     ebind (join_elements nts xs) (\<lambda>rest.
       Inr (if xs = [] then next else next @ '','' @ rest)))"

text \<open>
  \<^verbatim>\<open>ToPrimitive\<close> as the \<^verbatim>\<open>Date\<close> constructor applies it: a primitive is itself; an object
  or array has no \<^verbatim>\<open>valueOf\<close> that gives a primitive, so it goes through \<^verbatim>\<open>toString\<close> as
  above.
\<close>

fun ToPrimitive :: "(real \<Rightarrow> string) \<Rightarrow> json \<Rightarrow> exn + json" where
  "ToPrimitive nts (JArray xs) = ebind (ToString nts (JArray xs)) (\<lambda>s. Inr (JString s))"
| "ToPrimitive nts (JObject kvs) = ebind (ToString nts (JObject kvs)) (\<lambda>s. Inr (JString s))"
| "ToPrimitive nts JNull = Inr JNull"
| "ToPrimitive nts (JBool b) = Inr (JBool b)"
| "ToPrimitive nts (JNumber n) = Inr (JNumber n)"
| "ToPrimitive nts (JString s) = Inr (JString s)"

section \<open>Strings\<close>

fun startsWith :: "string \<Rightarrow> string \<Rightarrow> bool" where
  "startsWith s [] = True"
| "startsWith [] (p # ps) = False"
| "startsWith (c # cs) (p # ps) = (c = p \<and> startsWith cs ps)"

text \<open>\<^verbatim>\<open>s.includes(pat)\<close>.\<close>

fun js_includes :: "string \<Rightarrow> string \<Rightarrow> bool" where
  "js_includes [] pat = (pat = [])"
| "js_includes (c # cs) pat = (if startsWith (c # cs) pat then True else js_includes cs pat)"

text \<open>
  \<^verbatim>\<open>s.replace(pat, rep)\<close> with a string pattern: the first occurrence of the pattern,
  wherever it stands, is replaced, and nothing else.
\<close>

fun js_replace :: "string \<Rightarrow> string \<Rightarrow> string \<Rightarrow> string" where
  "js_replace [] pat rep = (if pat = [] then rep else [])"
| "js_replace (c # cs) pat rep =
     (if startsWith (c # cs) pat then rep @ drop (length pat) (c # cs)
      else c # js_replace cs pat rep)"

text \<open>\<^verbatim>\<open>xs.join(sep)\<close>.\<close>

fun js_join :: "string \<Rightarrow> string list \<Rightarrow> string" where
  "js_join sep [] = []"
| "js_join sep [x] = x"
| "js_join sep (x # y # ys) = x @ sep @ js_join sep (y # ys)"

text \<open>\<^verbatim>\<open>toLowerCase\<close> on code units 0..255: A-Z and the Latin-1 capitals gain bit 5.\<close>

definition toLowerCase_char :: "char \<Rightarrow> char" where
  "toLowerCase_char c =
     (let n = (of_char c :: nat) in
      if (65 \<le> n \<and> n \<le> 90) \<or> (192 \<le> n \<and> n \<le> 214) \<or> (216 \<le> n \<and> n \<le> 222)
      then (case c of Char b0 b1 b2 b3 b4 b5 b6 b7 \<Rightarrow> Char b0 b1 b2 b3 b4 True b6 b7)
      else c)"

definition toLowerCase :: "string \<Rightarrow> string" where
  "toLowerCase s = map toLowerCase_char s"

text \<open>\<^verbatim>\<open>trim\<close>: white space and line terminators among the code units 0..255.\<close>

definition is_white_space :: "char \<Rightarrow> bool" where
  "is_white_space c = ((of_char c :: nat) \<in> {9, 10, 11, 12, 13, 32, 160})"

definition trim :: "string \<Rightarrow> string" where
  "trim s = rev (dropWhile is_white_space (rev (dropWhile is_white_space s)))"

section \<open>The rendered document\<close>

text \<open>
  The callback of \<^verbatim>\<open>page.evaluate\<close> in \<^verbatim>\<open>scrapeWebsite\<close> is a function of the DOM of the
  rendered page. A node is a text node, an element, or a node of another type (a comment),
  which the walk skips. An element has its tag name, attributes and child nodes, and
  \<^item> \<open>object_valued\<close>: the properties whose read gives an object where the code expects a
    string or a list, each with what \<^verbatim>\<open>toString()\<close> of that object returns. These are
    \<^verbatim>\<open>className\<close> of an SVG element (an \<^verbatim>\<open>SVGAnimatedString\<close>), and every property of a
    form that a control with that name or id shadows;
  \<^item> \<open>radio\<close>: the nodes that iterating \<^verbatim>\<open>childNodes\<close> yields when what shadows it can be
    iterated (the \<^verbatim>\<open>RadioNodeList\<close> of several controls named \<^verbatim>\<open>childNodes\<close>, or a
    \<^verbatim>\<open>select\<close> with its options).
  The document has its address, its child nodes, and \<open>document_named\<close>: the names under
  which an embed, form, iframe, img or object element shadows a property of the document,
  with what the read then gives, as far as the callback looks at it: an element, or
  \<open>None\<close> for an object whose \<^verbatim>\<open>childNodes\<close> cannot be iterated, such as the window of an
  iframe or a collection of several elements.
  The callback runs in the page, and the model takes the built-in objects as the platform
  defines them: a page whose scripts have replaced one (a method of a prototype, say) is
  not among the documents modelled.
\<close>

datatype node =
    Text string
  | Comment string
  | Element (tagName: string) (attributes: "(string \<times> string) list") (childNodes: "node list")
      (object_valued: "(string \<times> string) list") (radio: "node list option")

record document =
  location_href :: string
  nodes :: "node list"
  document_named :: "(string \<times> node option) list"

text \<open>\<^verbatim>\<open>el.textContent\<close>: the data of the text nodes below the element, in tree order.\<close>

fun textContent :: "node \<Rightarrow> string" where
  "textContent (Text s) = s"
| "textContent (Comment s) = []"
| "textContent (Element tg as cs ov rd) = concat (map textContent cs)"

definition getAttribute :: "node \<Rightarrow> string \<Rightarrow> string" where
  "getAttribute el name =
     (case el of
        Element tg as cs ov rd \<Rightarrow> (case map_of as name of Some v \<Rightarrow> v | None \<Rightarrow> [])
      | _ \<Rightarrow> [])"

definition has_tag :: "string list \<Rightarrow> node \<Rightarrow> bool" where
  "has_tag tags n =
     (case n of Element tg as cs ov rd \<Rightarrow> toLowerCase tg \<in> set tags | _ \<Rightarrow> False)"

text \<open>
  \<^verbatim>\<open>document.querySelectorAll('script, style, noscript').forEach(el => el.remove())\<close>:
  every such element leaves the tree, with all that is below it; the nodes that a
  shadowed \<^verbatim>\<open>childNodes\<close> yields are nodes of the tree and lose the same elements.
\<close>

fun remove_in :: "node \<Rightarrow> node" where
  "remove_in (Element tg as cs ov rd) =
     Element tg as
       (map remove_in (filter (\<lambda>c. \<not> has_tag [''script'', ''style'', ''noscript''] c) cs))
       ov
       (case rd of None \<Rightarrow> None | Some ns \<Rightarrow> Some (map remove_in ns))"
| "remove_in (Text s) = Text s"
| "remove_in (Comment s) = Comment s"

definition remove_scripts :: "node list \<Rightarrow> node list" where
  "remove_scripts ns =
     map remove_in (filter (\<lambda>c. \<not> has_tag [''script'', ''style'', ''noscript''] c) ns)"

text \<open>\<^verbatim>\<open>document.querySelectorAll('*')\<close>: all elements, in document order.\<close>

fun elements_of :: "node \<Rightarrow> node list" where
  "elements_of (Element tg as cs ov rd) = Element tg as cs ov rd # concat (map elements_of cs)"
| "elements_of (Text s) = []"
| "elements_of (Comment s) = []"

definition querySelectorAll_star :: "node list \<Rightarrow> node list" where
  "querySelectorAll_star ns = concat (map elements_of ns)"

definition querySelector_main :: "node list \<Rightarrow> node option" where
  "querySelector_main ns = find (has_tag [''main'']) (querySelectorAll_star ns)"

text \<open>
  \<^verbatim>\<open>document.body\<close>: the first body or frameset child of the html document element,
  or null.
\<close>

definition document_body :: "node list \<Rightarrow> node option" where
  "document_body ns =
     (case find (\<lambda>n. case n of Element tg as cs ov rd \<Rightarrow> True | _ \<Rightarrow> False) ns of
        Some (Element tg as cs ov rd) \<Rightarrow>
          (if toLowerCase tg = ''html'' then find (has_tag [''body'', ''frameset'']) cs else None)
      | _ \<Rightarrow> None)"

section \<open>The content shaper\<close>

definition blockElements :: "string list" where
  "blockElements = [''div'', ''p'', ''h1'', ''h2'', ''h3'', ''h4'', ''h5'', ''h6'', ''li'', ''tr'',
                    ''article'', ''section'']"

text \<open>
  \<^verbatim>\<open>getTextWithStructure\<close> and its loop over \<^verbatim>\<open>element.childNodes\<close>, which carries the
  text built so far. Iterating a shadowed \<^verbatim>\<open>childNodes\<close> yields the nodes of \<open>radio\<close>,
  or throws when there are none to yield; a child whose \<^verbatim>\<open>nodeType\<close> is an object is
  neither a text node nor an element; calling \<^verbatim>\<open>toLowerCase\<close> on a \<^verbatim>\<open>tagName\<close> that is
  an object throws.
\<close>

fun getTextWithStructure :: "node \<Rightarrow> exn + string"
  and for_childNodes :: "node list \<Rightarrow> string \<Rightarrow> exn + string" where
  "getTextWithStructure (Element tg as cs ov rd) =
     (case rd of
        Some ns \<Rightarrow> for_childNodes ns []
      | None \<Rightarrow>
          (case map_of ov ''childNodes'' of
             Some obj \<Rightarrow> Inl (Error ''element.childNodes is not iterable'')
           | None \<Rightarrow> for_childNodes cs []))"
| "getTextWithStructure (Text s) = Inr []"
| "getTextWithStructure (Comment s) = Inr []"
| "for_childNodes [] text = Inr text"
| "for_childNodes (Text s # rest) text =
     for_childNodes rest
       (let nodeText = trim s in if nodeText \<noteq> [] then text @ nodeText @ '' '' else text)"
| "for_childNodes (Comment s # rest) text = for_childNodes rest text"
| "for_childNodes (Element tg as cs ov rd # rest) text =
     (case map_of ov ''nodeType'' of
        Some obj \<Rightarrow> for_childNodes rest text
      | None \<Rightarrow>
          (case map_of ov ''tagName'' of
             Some obj \<Rightarrow> Inl (Error ''elem.tagName.toLowerCase is not a function'')
           | None \<Rightarrow>
               ebind (getTextWithStructure (Element tg as cs ov rd)) (\<lambda>inner.
                 for_childNodes rest
                   (if toLowerCase tg \<in> set blockElements
                    then (text @ ''\<newline>'') @ inner @ ''\<newline>''
                    else text @ inner))))"

definition eventKeywords :: "string list" where
  "eventKeywords = [''events'', ''calendar'', ''shows'', ''concerts'', ''schedule'', ''upcoming'',
                    ''performances'', ''gigs'']"

text \<open>
  The three strings the filter compares:
  \<^verbatim>\<open>el.textContent?.toLowerCase() || ''\<close>, which throws when the property is an object;
  \<^verbatim>\<open>el.className?.toString().toLowerCase() || ''\<close>, which takes the string form of an object;
  \<^verbatim>\<open>el.id?.toLowerCase() || ''\<close>, which throws when the property is an object.
\<close>

definition property_object :: "node \<Rightarrow> string \<Rightarrow> string option" where
  "property_object el name =
     (case el of Element tg as cs ov rd \<Rightarrow> map_of ov name | _ \<Rightarrow> None)"

definition text_lower :: "node \<Rightarrow> exn + string" where
  "text_lower el =
     (case property_object el ''textContent'' of
        Some obj \<Rightarrow> Inl (Error ''el.textContent?.toLowerCase is not a function'')
      | None \<Rightarrow> Inr (toLowerCase (textContent el)))"

definition className_string :: "node \<Rightarrow> string" where
  "className_string el =
     (case property_object el ''className'' of
        Some obj \<Rightarrow> obj
      | None \<Rightarrow> getAttribute el ''class'')"

definition id_lower :: "node \<Rightarrow> exn + string" where
  "id_lower el =
     (case property_object el ''id'' of
        Some obj \<Rightarrow> Inl (Error ''el.id?.toLowerCase is not a function'')
      | None \<Rightarrow> Inr (toLowerCase (getAttribute el ''id'')))"

text \<open>The callback of the filter of the keyword loop.\<close>

definition keyword_filter :: "string \<Rightarrow> node \<Rightarrow> exn + bool" where
  "keyword_filter keyword el =
     ebind (text_lower el) (\<lambda>text.
     ebind (Inr (toLowerCase (className_string el))) (\<lambda>className.
     ebind (id_lower el) (\<lambda>ident.
       Inr (if js_includes text keyword then True
            else if js_includes className keyword then True
            else js_includes ident keyword))))"

text \<open>\<^verbatim>\<open>xs.filter(f)\<close>: a callback that throws ends the filter.\<close>

fun filterM :: "('a \<Rightarrow> exn + bool) \<Rightarrow> 'a list \<Rightarrow> exn + 'a list" where
  "filterM f [] = Inr []"
| "filterM f (x # xs) =
     ebind (f x) (\<lambda>keep. ebind (filterM f xs) (\<lambda>ys. Inr (if keep then x # ys else ys)))"

text \<open>
  \<^verbatim>\<open>el.textContent && el.textContent.length > 50\<close>, on an element that passed the filter:
  its \<^verbatim>\<open>textContent\<close> is a string, or the filter would have thrown.
\<close>

definition long_enough :: "node \<Rightarrow> bool" where
  "long_enough el = (textContent el \<noteq> [] \<and> length (textContent el) > 50)"

text \<open>The inner loop \<^verbatim>\<open>for (const el of elements)\<close>, carrying \<^verbatim>\<open>eventContent\<close>.\<close>

fun for_elements :: "node list \<Rightarrow> string \<Rightarrow> exn + string" where
  "for_elements [] eventContent = Inr eventContent"
| "for_elements (el # els) eventContent =
     (if long_enough el
      then ebind (getTextWithStructure el) (\<lambda>text.
             for_elements els (eventContent @ text @ ''\<newline>\<newline>''))
      else for_elements els eventContent)"

text \<open>The outer loop \<^verbatim>\<open>for (const keyword of eventKeywords)\<close>.\<close>

fun for_keywords :: "string list \<Rightarrow> node list \<Rightarrow> string \<Rightarrow> exn + string" where
  "for_keywords [] ns eventContent = Inr eventContent"
| "for_keywords (keyword # kws) ns eventContent =
     ebind (filterM (keyword_filter keyword) (querySelectorAll_star ns)) (\<lambda>elements.
     ebind (for_elements elements eventContent) (\<lambda>eventContent'.
       for_keywords kws ns eventContent'))"

text \<open>
  \<^verbatim>\<open>eventContent\<close> after the fallback to \<^verbatim>\<open>document.querySelector('main') || document.body\<close>.
  A shadowed \<^verbatim>\<open>querySelector\<close> is not a function; a shadowed \<^verbatim>\<open>body\<close> is the shadowing
  element, or an object without child nodes to iterate; reading the children of a null
  body throws.
\<close>

definition page_content :: "(string \<times> node option) list \<Rightarrow> node list \<Rightarrow> exn + string" where
  "page_content named ns =
     ebind (for_keywords eventKeywords ns []) (\<lambda>eventContent.
       if eventContent = [] then
         (case map_of named ''querySelector'' of
            Some obj \<Rightarrow> Inl (Error ''document.querySelector is not a function'')
          | None \<Rightarrow>
              (case querySelector_main ns of
                 Some m \<Rightarrow> getTextWithStructure m
               | None \<Rightarrow>
                   (case map_of named ''body'' of
                      Some (Some n) \<Rightarrow> getTextWithStructure n
                    | Some None \<Rightarrow> Inl (Error ''element.childNodes is not iterable'')
                    | None \<Rightarrow>
                        (case document_body ns of
                           Some b \<Rightarrow> getTextWithStructure b
                         | None \<Rightarrow> Inl (Error ''Cannot read properties of null'')))))
       else Inr eventContent)"

text \<open>
  \<^verbatim>\<open>document.querySelectorAll('script[type="application/ld+json"]')\<close>, the text of each,
  the empty ones dropped, joined by blank lines.
\<close>

definition is_ld_json :: "node \<Rightarrow> bool" where
  "is_ld_json el =
     (has_tag [''script''] el \<and>
      (case el of
         Element tg as cs ov rd \<Rightarrow>
           (case map_of as ''type'' of
              Some v \<Rightarrow> toLowerCase v = ''application/ld+json''
            | None \<Rightarrow> False)
       | _ \<Rightarrow> False))"

definition structuredData :: "node list \<Rightarrow> string" where
  "structuredData ns =
     js_join ''\<newline>\<newline>''
       (filter (\<lambda>s. s \<noteq> [])
          (map textContent (filter is_ld_json (querySelectorAll_star ns))))"

text \<open>
  The whole callback: the script, style and noscript elements are removed first, and
  everything after that reads the document that is left. A shadowed
  \<^verbatim>\<open>document.querySelectorAll\<close> is not a function, and the first statement throws.
\<close>

definition page_evaluate :: "document \<Rightarrow> exn + string" where
  "page_evaluate d =
     (case map_of (document_named d) ''querySelectorAll'' of
        Some obj \<Rightarrow> Inl (Error ''document.querySelectorAll is not a function'')
      | None \<Rightarrow>
          (let ns = remove_scripts (nodes d);
               named = map (\<lambda>(name, v). (name, map_option remove_in v)) (document_named d)
           in ebind (page_content named ns) (\<lambda>eventContent.
                Inr (''URL: '' @ location_href d @ ''\<newline>\<newline>STRUCTURED DATA:\<newline>''
                     @ structuredData ns @ ''\<newline>\<newline>PAGE CONTENT:\<newline>''
                     @ eventContent))))"

section \<open>The outside world\<close>

text \<open>
  What the handler calls and the repository does not contain. The browser and the model
  are effects on a world \<open>'w\<close>; the parsers are functions.
  \<^item> \<open>chromium\<close>: launch, navigate to the URL, wait and scroll, then hand over the DOM and
    the screenshot, or throw (launch, navigation, timeout, close).
  \<^item> \<open>chat_completions_create\<close>: the model call for a client, the shaped content, the
    screenshot and the base URL; it throws or returns the \<^verbatim>\<open>message.content\<close> of each
    choice (null is \<open>None\<close>).
  \<^item> \<open>JSON_parse\<close>: \<^verbatim>\<open>JSON.parse\<close>, which throws a \<^verbatim>\<open>SyntaxError\<close> or returns a value.
  \<^item> \<open>URL_hostname\<close>: \<^verbatim>\<open>new URL(u).hostname\<close>, where the constructor throws a
    \<^verbatim>\<open>TypeError\<close> on what is not a URL.
  \<^item> \<open>Date_parse\<close>: the time value of \<^verbatim>\<open>new Date(v)\<close> in milliseconds for a primitive
    \<^verbatim>\<open>v\<close>, \<open>None\<close> when the date is invalid.
  \<^item> \<open>Array_sort\<close>: the engine's \<^verbatim>\<open>Array.prototype.sort\<close>, given the comparator as the
    engine reads it (an integer, NaN already taken for +0).
  \<^item> \<open>Number_toString\<close>: how the engine prints a number.
\<close>

text \<open>
  The client made by \<^verbatim>\<open>new OpenAI({ apiKey })\<close>. The constructor throws on an undefined
  key only, and the handler makes the client after it has found the key truthy.
\<close>

datatype openai_client = OpenAI (apiKey: "json option")

text \<open>The \<^verbatim>\<open>Event\<close> type of the handler; its fields hold whatever the model returned.\<close>

record event =
  venue :: json
  eventName :: json
  date :: json
  time :: json
  price :: "json option"
  description :: "json option"
  url :: json

record 'w env =
  chromium :: "json \<Rightarrow> 'w \<Rightarrow> (exn + document \<times> string) \<times> 'w"
  chat_completions_create ::
    "openai_client \<Rightarrow> string \<Rightarrow> string \<Rightarrow> json \<Rightarrow> 'w \<Rightarrow> (exn + string option list) \<times> 'w"
  JSON_parse :: "string \<Rightarrow> exn + json"
  URL_hostname :: "json \<Rightarrow> exn + string"
  Date_parse :: "json \<Rightarrow> int option"
  Array_sort :: "(event \<Rightarrow> event \<Rightarrow> int) \<Rightarrow> event list \<Rightarrow> event list"
  Number_toString :: "real \<Rightarrow> string"

text \<open>The state of one invocation: the world, and the calls made so far, oldest first.\<close>

datatype call = Render json | Extract json

type_synonym 'w state = "'w \<times> call list"

section \<open>The renderer\<close>

definition scrapeWebsite ::
  "'w env \<Rightarrow> json \<Rightarrow> 'w state \<Rightarrow> (exn + string \<times> string) \<times> 'w state" where
  "scrapeWebsite env u s =
     (case chromium env u (fst s) of
        (page, w) \<Rightarrow>
          (ebind page (\<lambda>(d, screenshot).
             ebind (page_evaluate d) (\<lambda>content. Inr (content, screenshot))),
           (w, snd s @ [Render u])))"

section \<open>The extraction client\<close>

text \<open>The callback of \<^verbatim>\<open>events.map\<close>; \<open>u\<close> is the source URL.\<close>

definition map_event :: "'w env \<Rightarrow> json \<Rightarrow> json \<Rightarrow> exn + event" where
  "map_event env u ev =
     ebind (get_prop ev ''venue'') (\<lambda>v.
     ebind (or_else v
              (ebind (URL_hostname env u) (\<lambda>hostname.
                 Inr (JString (js_replace hostname ''www.'' []))))) (\<lambda>v'.
     ebind (get_prop ev ''eventName'') (\<lambda>n.
     ebind (or_else n
              (ebind (get_prop ev ''name'') (\<lambda>n1.
               or_else n1
                 (ebind (get_prop ev ''title'') (\<lambda>n2.
                  or_else n2 (Inr (JString ''Unknown Event''))))))) (\<lambda>n'.
     ebind (get_prop ev ''date'') (\<lambda>d.
     ebind (or_else d (Inr (JString ''TBA''))) (\<lambda>d'.
     ebind (get_prop ev ''time'') (\<lambda>t.
     ebind (or_else t (Inr (JString ''TBA''))) (\<lambda>t'.
     ebind (get_prop ev ''price'') (\<lambda>p.
     ebind (get_prop ev ''description'') (\<lambda>ds.
     ebind (get_prop ev ''url'') (\<lambda>l.
     ebind (or_else l (Inr u)) (\<lambda>l'.
       Inr \<lparr>venue = v', eventName = n', date = d', time = t', price = p,
            description = ds, url = l'\<rparr>))))))))))))"

text \<open>\<^verbatim>\<open>xs.map(f)\<close>: a callback that throws ends the map.\<close>

fun mapM :: "('a \<Rightarrow> exn + 'b) \<Rightarrow> 'a list \<Rightarrow> exn + 'b list" where
  "mapM f [] = Inr []"
| "mapM f (x # xs) = ebind (f x) (\<lambda>y. ebind (mapM f xs) (\<lambda>ys. Inr (y # ys)))"

text \<open>\<^verbatim>\<open>events.map(f)\<close> on a value that may not be an array.\<close>

fun Array_map :: "(json \<Rightarrow> exn + 'b) \<Rightarrow> json \<Rightarrow> exn + 'b list" where
  "Array_map f (JArray xs) = mapM f xs"
| "Array_map f JNull = Inl (Error ''Cannot read properties of null'')"
| "Array_map f (JBool b) = Inl (Error ''events.map is not a function'')"
| "Array_map f (JNumber n) = Inl (Error ''events.map is not a function'')"
| "Array_map f (JString s) = Inl (Error ''events.map is not a function'')"
| "Array_map f (JObject kvs) = Inl (Error ''events.map is not a function'')"

text \<open>\<^verbatim>\<open>parsed.events || parsed.data || []\<close>.\<close>

definition events_of :: "json \<Rightarrow> exn + json" where
  "events_of parsed =
     ebind (get_prop parsed ''events'') (\<lambda>a.
     or_else a
       (ebind (get_prop parsed ''data'') (\<lambda>b.
        or_else b (Inr (JArray [])))))"

text \<open>The \<^verbatim>\<open>try\<close> block of \<^verbatim>\<open>extractEventsWithGPT\<close>, from the awaited response on.\<close>

definition try_extract :: "'w env \<Rightarrow> json \<Rightarrow> exn + string option list \<Rightarrow> exn + event list" where
  "try_extract env u response =
     ebind response (\<lambda>choices.
       case choices of
         [] \<Rightarrow> Inl (Error ''Cannot read properties of undefined'')
       | result # rest \<Rightarrow>
           (case result of
              None \<Rightarrow> Inr []
            | Some r \<Rightarrow>
                if r = [] then Inr []
                else ebind (JSON_parse env r) (\<lambda>parsed.
                     ebind (events_of parsed) (\<lambda>evs.
                     Array_map (map_event env u) evs))))"

text \<open>
  The \<^verbatim>\<open>catch\<close> block returns the empty array. The two prompts are built before the
  \<^verbatim>\<open>try\<close>; the user prompt converts the URL to a string, which the loop of the handler
  has done before it calls the function, so it does not throw here.
\<close>

definition extractEventsWithGPT ::
  "'w env \<Rightarrow> string \<Rightarrow> string \<Rightarrow> json \<Rightarrow> openai_client \<Rightarrow> 'w state
     \<Rightarrow> (exn + event list) \<times> 'w state" where
  "extractEventsWithGPT env content screenshot u openai s =
     (case chat_completions_create env openai content screenshot u (fst s) of
        (response, w) \<Rightarrow>
          ((case try_extract env u response of
              Inl error \<Rightarrow> Inr []
            | Inr evs \<Rightarrow> Inr evs),
           (w, snd s @ [Extract u])))"

section \<open>The orchestrator\<close>

text \<open>
  The \<^verbatim>\<open>try\<close> block of the loop body. It starts with
  \<^verbatim>\<open>console.log(`Scraping ${url}...`)\<close>, whose string conversion of the URL may throw.
\<close>

definition try_url ::
  "'w env \<Rightarrow> openai_client \<Rightarrow> json \<Rightarrow> 'w state \<Rightarrow> (exn + event list) \<times> 'w state" where
  "try_url env openai u s =
     (case ToString (Number_toString env) u of
        Inl error \<Rightarrow> (Inl error, s)
      | Inr line \<Rightarrow>
          (case scrapeWebsite env u s of
             (Inl error, s1) \<Rightarrow> (Inl error, s1)
           | (Inr (content, screenshot), s1) \<Rightarrow>
               extractEventsWithGPT env content screenshot u openai s1))"

text \<open>
  The loop \<^verbatim>\<open>for (const url of urls)\<close> with its \<^verbatim>\<open>try\<close>/\<^verbatim>\<open>catch\<close>, carrying
  \<^verbatim>\<open>allEvents\<close>. The \<^verbatim>\<open>catch\<close> block is \<^verbatim>\<open>console.error(`Error processing ${url}:`, error)\<close>:
  it converts the URL again, and what that throws leaves the loop.
\<close>

fun for_urls ::
  "'w env \<Rightarrow> openai_client \<Rightarrow> json list \<Rightarrow> event list \<Rightarrow> 'w state
     \<Rightarrow> (exn + event list) \<times> 'w state" where
  "for_urls env openai [] allEvents s = (Inr allEvents, s)"
| "for_urls env openai (u # us) allEvents s =
     (case try_url env openai u s of
        (Inr evs, s1) \<Rightarrow> for_urls env openai us (allEvents @ evs) s1
      | (Inl error, s1) \<Rightarrow>
          (case ToString (Number_toString env) u of
             Inl error' \<Rightarrow> (Inl error', s1)
           | Inr line \<Rightarrow> for_urls env openai us allEvents s1))"

text \<open>A JavaScript number as far as the comparator needs it: an integer or NaN.\<close>

datatype number = Num int | NaN

text \<open>
  \<^verbatim>\<open>new Date(v).getTime()\<close>: the value is converted to a primitive first, which may throw;
  an invalid date has the time NaN.
\<close>

definition new_Date :: "'w env \<Rightarrow> json \<Rightarrow> exn + number" where
  "new_Date env v =
     ebind (ToPrimitive (Number_toString env) v) (\<lambda>p.
       Inr (case Date_parse env p of None \<Rightarrow> NaN | Some t \<Rightarrow> Num t))"

text \<open>
  The difference of two times. Time values are integers of magnitude at most 8.64e15, and
  the difference is taken exactly here; the rounding of the engine keeps its sign.
\<close>

definition minus_number :: "number \<Rightarrow> number \<Rightarrow> number" where
  "minus_number a b =
     (case a of NaN \<Rightarrow> NaN | Num x \<Rightarrow> (case b of NaN \<Rightarrow> NaN | Num y \<Rightarrow> Num (x - y)))"

text \<open>The \<^verbatim>\<open>try\<close> block of the comparator, and the comparator with its \<^verbatim>\<open>catch\<close>.\<close>

definition try_compare :: "'w env \<Rightarrow> event \<Rightarrow> event \<Rightarrow> exn + number" where
  "try_compare env a b =
     ebind (new_Date env (date a)) (\<lambda>dateA.
     ebind (new_Date env (date b)) (\<lambda>dateB.
       Inr (minus_number dateA dateB)))"

definition compareFn :: "'w env \<Rightarrow> event \<Rightarrow> event \<Rightarrow> number" where
  "compareFn env a b = (case try_compare env a b of Inl error \<Rightarrow> Num 0 | Inr v \<Rightarrow> v)"

text \<open>
  How \<^verbatim>\<open>Array.prototype.sort\<close> reads the comparator (ECMAScript, SortCompare): NaN
  counts as +0.
\<close>

definition SortCompare :: "'w env \<Rightarrow> event \<Rightarrow> event \<Rightarrow> int" where
  "SortCompare env a b = (case compareFn env a b of NaN \<Rightarrow> 0 | Num v \<Rightarrow> v)"

text \<open>The response: \<^verbatim>\<open>NextResponse.json\<close> of an error or of the events, with its status.\<close>

record response =
  res_status :: nat
  res_error :: "string option"
  res_events :: "event list option"

fun array_length :: "json option \<Rightarrow> nat" where
  "array_length (Some (JArray xs)) = length xs"
| "array_length v = 0"

fun array_elements :: "json option \<Rightarrow> json list" where
  "array_elements (Some (JArray xs)) = xs"
| "array_elements v = []"

text \<open>\<^verbatim>\<open>const { urls, apiKey } = await request.json()\<close>: the body read may reject.\<close>

definition destructure :: "exn + json \<Rightarrow> exn + json option \<times> json option" where
  "destructure request_json =
     ebind request_json (\<lambda>body.
     ebind (get_prop body ''urls'') (\<lambda>urls.
     ebind (get_prop body ''apiKey'') (\<lambda>key.
       Inr (urls, key))))"

definition no_urls :: "json option \<Rightarrow> bool" where
  "no_urls urls =
     (if \<not> ToBoolean urls then True
      else if \<not> Array_isArray urls then True
      else array_length urls = 0)"

definition POST :: "'w env \<Rightarrow> exn + json \<Rightarrow> 'w state \<Rightarrow> response \<times> 'w state" where
  "POST env request_json s =
     (case destructure request_json of
        Inl error \<Rightarrow>
          (\<lparr>res_status = 500,
            res_error = Some (case error of Error m \<Rightarrow> m | NonError \<Rightarrow> ''An error occurred''),
            res_events = None\<rparr>, s)
      | Inr (urls, key) \<Rightarrow>
          if no_urls urls then
            (\<lparr>res_status = 400, res_error = Some ''No URLs provided'', res_events = None\<rparr>, s)
          else if \<not> ToBoolean key then
            (\<lparr>res_status = 400, res_error = Some ''OpenAI API key is required'',
              res_events = None\<rparr>, s)
          else
            (case for_urls env (OpenAI key) (array_elements urls) [] s of
               (Inl error, s') \<Rightarrow>
                 (\<lparr>res_status = 500,
                   res_error =
                     Some (case error of Error m \<Rightarrow> m | NonError \<Rightarrow> ''An error occurred''),
                   res_events = None\<rparr>, s')
             | (Inr allEvents, s') \<Rightarrow>
                 (\<lparr>res_status = 200, res_error = None,
                   res_events = Some (Array_sort env (SortCompare env) allEvents)\<rparr>, s')))"

section \<open>Reference definitions\<close>

text \<open>
  A value that a template literal can convert to a string: anything but an object with a
  \<^verbatim>\<open>toString\<close> key, or an array that holds one.
\<close>

fun printable :: "json \<Rightarrow> bool" where
  "printable (JObject kvs) = (map_of kvs ''toString'' = None)"
| "printable (JArray xs) = list_all printable xs"
| "printable JNull = True"
| "printable (JBool b) = True"
| "printable (JNumber n) = True"
| "printable (JString s) = True"

text \<open>
  What one URL contributes to the batch: the events extracted from it, and none when
  rendering or extraction throws. \<open>each_url\<close> lists the contributions in URL order.
\<close>

definition url_events :: "'w env \<Rightarrow> openai_client \<Rightarrow> json \<Rightarrow> 'w state \<Rightarrow> event list \<times> 'w state" where
  "url_events env openai u s =
     (case scrapeWebsite env u s of
        (Inl error, s1) \<Rightarrow> ([], s1)
      | (Inr (content, screenshot), s1) \<Rightarrow>
          (case extractEventsWithGPT env content screenshot u openai s1 of
             (Inl error, s2) \<Rightarrow> ([], s2)
           | (Inr evs, s2) \<Rightarrow> (evs, s2)))"

fun each_url ::
  "'w env \<Rightarrow> openai_client \<Rightarrow> json list \<Rightarrow> 'w state \<Rightarrow> event list list \<times> 'w state" where
  "each_url env openai [] s = ([], s)"
| "each_url env openai (u # us) s =
     (case url_events env openai u s of
        (evs, s1) \<Rightarrow>
          (case each_url env openai us s1 of (rest, s2) \<Rightarrow> (evs # rest, s2)))"

text \<open>The URLs rendered, in the order of the calls.\<close>

fun rendered :: "call list \<Rightarrow> json list" where
  "rendered [] = []"
| "rendered (Render u # cs) = u # rendered cs"
| "rendered (Extract u # cs) = rendered cs"

text \<open>
  What is asked of the engine's sort. ECMAScript calls a comparator consistent for a set of
  values when equality under it is reflexive, symmetric and transitive and both strict
  orders are transitive. For such a comparator the result is in the order of the
  comparator, and the sort is stable; for any other the order is left to the engine.
  Whatever the comparator, the result holds the elements it was given.
\<close>

definition consistent :: "('a \<Rightarrow> 'a \<Rightarrow> int) \<Rightarrow> 'a set \<Rightarrow> bool" where
  "consistent c S =
     ((\<forall>a \<in> S. c a a = 0)
      \<and> (\<forall>a \<in> S. \<forall>b \<in> S. c a b = 0 \<longrightarrow> c b a = 0)
      \<and> (\<forall>a \<in> S. \<forall>b \<in> S. \<forall>d \<in> S. c a b = 0 \<and> c b d = 0 \<longrightarrow> c a d = 0)
      \<and> (\<forall>a \<in> S. \<forall>b \<in> S. \<forall>d \<in> S. c a b < 0 \<and> c b d < 0 \<longrightarrow> c a d < 0)
      \<and> (\<forall>a \<in> S. \<forall>b \<in> S. \<forall>d \<in> S. c a b > 0 \<and> c b d > 0 \<longrightarrow> c a d > 0))"


text \<open>
  Two engines that conform. The stable insertion sort: an element moves behind a later one
  only when the comparator puts it strictly after that one. And an engine that sorts so
  when the comparator is consistent, and returns the array reversed when it is not.
\<close>

fun insert_sorted :: "('a \<Rightarrow> 'a \<Rightarrow> int) \<Rightarrow> 'a \<Rightarrow> 'a list \<Rightarrow> 'a list" where
  "insert_sorted c x [] = [x]"
| "insert_sorted c x (y # ys) = (if c x y > 0 then y # insert_sorted c x ys else x # y # ys)"

fun insertion_sort :: "('a \<Rightarrow> 'a \<Rightarrow> int) \<Rightarrow> 'a list \<Rightarrow> 'a list" where
  "insertion_sort c [] = []"
| "insertion_sort c (x # xs) = insert_sorted c x (insertion_sort c xs)"

definition reversing_sort :: "('a \<Rightarrow> 'a \<Rightarrow> int) \<Rightarrow> 'a list \<Rightarrow> 'a list" where
  "reversing_sort c xs = (if consistent c (set xs) then insertion_sort c xs else rev xs)"

text \<open>
  The time of an event as the comparator sees it: \<open>None\<close> when the date cannot be made a
  primitive or is invalid. An event without a time is unparseable.
\<close>

definition event_time :: "'w env \<Rightarrow> event \<Rightarrow> int option" where
  "event_time env e =
     (case new_Date env (date e) of Inl error \<Rightarrow> None | Inr NaN \<Rightarrow> None | Inr (Num t) \<Rightarrow> Some t)"

definition unparseable :: "'w env \<Rightarrow> event \<Rightarrow> bool" where
  "unparseable env e = (event_time env e = None)"


text \<open>
  The value a model event has under a key, \<open>None\<close> when it has none, and the first
  truthy value of a chain of alternatives that ends in a default.
\<close>

definition field :: "json \<Rightarrow> string \<Rightarrow> json option" where
  "field ev k = (case ev of JObject kvs \<Rightarrow> map_of kvs k | _ \<Rightarrow> None)"

fun first_truthy :: "json option list \<Rightarrow> json \<Rightarrow> json" where
  "first_truthy [] d = d"
| "first_truthy (None # vs) d = first_truthy vs d"
| "first_truthy (Some v # vs) d = (if truthy v then v else first_truthy vs d)"





section \<open>A sample run\<close>

text \<open>
  An outside world to run the handler on: one venue page that renders, every other URL
  times out; the model's reply depends on the key; the engine is one that conforms.
\<close>

definition sample_page :: document where
  \<open>sample_page =
     \<lparr>location_href = ''https://www.bluenote.net/newyork/'',
      nodes =
        [Element ''HTML'' []
           [Element ''HEAD'' []
              [Element ''SCRIPT'' [(''type'', ''application/ld+json'')]
                 [Text ''{"@type":"MusicEvent","name":"Band X"}''] [] None] [] None,
            Element ''BODY'' [] [Text ''Band X - March 15 - $20''] [] None] [] None],
      document_named = []\<rparr>\<close>

definition sample_reply :: string where
  \<open>sample_reply =
     ''{"events":[{"eventName":"Band X","date":"March 15, 2030","price":"$20"},{"title":"Late Set"}]}''\<close>

definition sample_parsed :: json where
  "sample_parsed =
     JObject [(''events'', JArray
       [JObject [(''eventName'', JString ''Band X''), (''date'', JString ''March 15, 2030''),
                 (''price'', JString ''$20'')],
        JObject [(''title'', JString ''Late Set'')]])]"

definition sample_env :: "nat env" where
  \<open>sample_env =
     \<lparr>chromium = (\<lambda>u w.
        (if u = JString ''https://www.bluenote.net/newyork/'' then Inr (sample_page, ''/9j/4AAQ'')
         else Inl (Error ''page.goto: Timeout 30000ms exceeded''), Suc w)),
      chat_completions_create = (\<lambda>openai content screenshot u w.
        (if apiKey openai = Some (JString ''sk-test'') then Inr [Some sample_reply]
         else if apiKey openai = Some (JString ''sk-null'') then Inr [None]
         else if apiKey openai = Some (JString ''sk-prose'') then Inr [Some ''No events found.'']
         else if apiKey openai = Some (JString ''sk-string'') then Inr [Some ''{"events":"none"}'']
         else Inl (Error ''401 Incorrect API key provided''), Suc w)),
      JSON_parse = (\<lambda>r.
        if r = sample_reply then Inr sample_parsed
        else if r = ''{"events":"none"}'' then Inr (JObject [(''events'', JString ''none'')])
        else Inl (Error ''Unexpected token'')),
      URL_hostname = (\<lambda>u.
        if u = JString ''https://www.bluenote.net/newyork/'' then Inr ''www.bluenote.net''
        else if u = JString ''https://tickets.www.example.com/'' then Inr ''tickets.www.example.com''
        else Inl (Error ''Invalid URL'')),
      Date_parse = (\<lambda>v.
        if v = JString ''March 15, 2030'' then Some 1899763200000
        else if v = JString ''March 1, 2030'' then Some 1898553600000
        else None),
      Array_sort = insertion_sort,
      Number_toString = (\<lambda>n. if n = 5 then ''5'' else ''0'')\<rparr>\<close>

text \<open>The two events of the sample reply, normalised, and an event with a given date.\<close>

definition sample_events :: "event list" where
  "sample_events =
     [\<lparr>venue = JString ''bluenote.net'', eventName = JString ''Band X'',
       date = JString ''March 15, 2030'', time = JString ''TBA'', price = Some (JString ''$20''),
       description = None, url = JString ''https://www.bluenote.net/newyork/''\<rparr>,
      \<lparr>venue = JString ''bluenote.net'', eventName = JString ''Late Set'',
       date = JString ''TBA'', time = JString ''TBA'', price = None,
       description = None, url = JString ''https://www.bluenote.net/newyork/''\<rparr>]"

definition sample_gig :: "string \<Rightarrow> event" where
  "sample_gig d =
     \<lparr>venue = JString ''bluenote.net'', eventName = JString ''Band X'', date = JString d,
      time = JString ''8:00 PM'', price = None, description = None,
      url = JString ''https://www.bluenote.net/newyork/''\<rparr>"





text \<open>
  A search form whose text field is named \<^verbatim>\<open>id\<close>: reading \<^verbatim>\<open>id\<close> on the form gives the
  field.
\<close>

definition sample_form :: node where
  "sample_form =
     Element ''FORM'' []
       [Element ''INPUT'' [(''name'', ''id'')] [] [] None]
       [(''id'', ''[object HTMLInputElement]'')] None"

text \<open>A URL and a date that cannot be converted to a string.\<close>

definition sample_unprintable :: json where
  "sample_unprintable = JObject [(''toString'', JNull)]"

definition sample_bad_date :: json where
  "sample_bad_date = JObject [(''toString'', JString ''a''), (''valueOf'', JString ''b'')]"

text \<open>The event that the model's \<^verbatim>\<open>{"eventName": "Band X", "date": {...}}\<close> becomes.\<close>

definition sample_bad_gig :: event where
  "sample_bad_gig =
     \<lparr>venue = JString ''bluenote.net'', eventName = JString ''Band X'', date = sample_bad_date,
      time = JString ''TBA'', price = None, description = None,
      url = JString ''https://www.bluenote.net/newyork/''\<rparr>"

text \<open>The sample world with the engine that reverses.\<close>

definition reversing_env :: "nat env" where
  "reversing_env = sample_env \<lparr>Array_sort := reversing_sort\<rparr>"

section \<open>Basic facts\<close>

lemma ebind_Inl [simp]: "ebind (Inl e) f = Inl e"
  by (simp add: ebind_def)

lemma ebind_Inr [simp]: "ebind (Inr x) f = f x"
  by (simp add: ebind_def)

lemma ebind_eq_Inr:
  "ebind m f = Inr y \<longleftrightarrow> (\<exists>x. m = Inr x \<and> f x = Inr y)"
  by (cases m) auto

lemma ToBoolean_Some: "ToBoolean key \<Longrightarrow> \<exists>v. key = Some v \<and> truthy v"
  by (cases key) auto

lemma no_urls_iff:
  "no_urls urls \<longleftrightarrow> (urls = None \<or> \<not> Array_isArray urls \<or> urls = Some (JArray []))"
proof (cases urls)
  case None
  then show ?thesis by (simp add: no_urls_def)
next
  case (Some v)
  then show ?thesis by (cases v) (auto simp: no_urls_def)
qed

lemma destructure_Inr:
  "get_prop body ''urls'' = Inr urls \<Longrightarrow> get_prop body ''apiKey'' = Inr key
     \<Longrightarrow> destructure (Inr body) = Inr (urls, key)"
  by (simp add: destructure_def)

section \<open>Facts about the renderer and the extraction\<close>

lemma scrapeWebsite_log:
  "snd (snd (scrapeWebsite env u s)) = snd s @ [Render u]"
  by (simp add: scrapeWebsite_def split: prod.splits)

lemma extract_log:
  "snd (snd (extractEventsWithGPT env content screenshot u openai s)) = snd s @ [Extract u]"
  by (simp add: extractEventsWithGPT_def split: prod.splits)

lemma extract_returns:
  "\<exists>evs. fst (extractEventsWithGPT env content screenshot u openai s) = Inr evs"
  by (simp add: extractEventsWithGPT_def split: prod.splits sum.splits)

section \<open>Facts about the string conversion\<close>

lemma ToString_throws:
  "ToString nts v = Inl e \<Longrightarrow> e = Error ''Cannot convert object to primitive value''"
  and join_elements_throws:
  "join_elements nts vs = Inl e \<Longrightarrow> e = Error ''Cannot convert object to primitive value''"
  by (induction nts v and nts vs rule: ToString_join_elements.induct)
     (auto simp: ebind_def split: option.splits sum.splits if_splits)

lemma ToString_printable: "(\<exists>t. ToString nts v = Inr t) \<longleftrightarrow> printable v"
  and join_elements_printable: "(\<exists>t. join_elements nts vs = Inr t) \<longleftrightarrow> list_all printable vs"
  by (induction nts v and nts vs rule: ToString_join_elements.induct)
     (auto simp: ebind_def split: option.splits sum.splits if_splits)

lemma printable_ToString: "printable v \<Longrightarrow> \<exists>t. ToString nts v = Inr t"
  using ToString_printable by blast

lemma unprintable_ToString:
  "\<not> printable v \<Longrightarrow> ToString nts v = Inl (Error ''Cannot convert object to primitive value'')"
proof -
  assume a: "\<not> printable v"
  then have "\<not> (\<exists>t. ToString nts v = Inr t)"
    using ToString_printable by blast
  then obtain e where e: "ToString nts v = Inl e"
    by (cases "ToString nts v") auto
  then show ?thesis using ToString_throws by blast
qed

section \<open>Facts about the loop over the URLs\<close>

lemma for_urls_step:
  assumes "printable u"
  shows "for_urls env openai (u # us) acc s =
     for_urls env openai us (acc @ fst (url_events env openai u s)) (snd (url_events env openai u s))"
proof -
  obtain t where t: "ToString (Number_toString env) u = Inr t"
    using printable_ToString [OF assms] by blast
  show ?thesis
    by (simp add: try_url_def url_events_def t split: prod.splits sum.splits)
qed

lemma for_urls_throw:
  assumes "\<not> printable u"
  shows "for_urls env openai (u # us) acc s =
           (Inl (Error ''Cannot convert object to primitive value''), s)"
  by (simp add: try_url_def unprintable_ToString [OF assms])

lemma for_urls_each_url:
  "list_all printable us \<Longrightarrow>
   for_urls env openai us acc s =
     (Inr (acc @ concat (fst (each_url env openai us s))), snd (each_url env openai us s))"
proof (induction us arbitrary: acc s)
  case Nil
  then show ?case by simp
next
  case (Cons u us)
  then have p: "printable u" and q: "list_all printable us" by simp_all
  show ?case
    unfolding for_urls_step [OF p]
    by (simp add: Cons.IH [OF q] split: prod.splits)
qed

lemma for_urls_abort:
  "list_all printable pre \<Longrightarrow> \<not> printable u \<Longrightarrow>
   for_urls env openai (pre @ u # post) acc s =
     (Inl (Error ''Cannot convert object to primitive value''), snd (each_url env openai pre s))"
proof (induction pre arbitrary: acc s)
  case Nil
  then show ?case by (simp add: for_urls_throw del: for_urls.simps)
next
  case (Cons p pre)
  then have p: "printable p" and q: "list_all printable pre" by simp_all
  have "for_urls env openai ((p # pre) @ u # post) acc s =
          for_urls env openai (pre @ u # post) (acc @ fst (url_events env openai p s))
            (snd (url_events env openai p s))"
    using for_urls_step [OF p] by simp
  then show ?case
    using Cons.IH [OF q Cons.prems(2)] by (simp add: case_prod_beta del: for_urls.simps)
qed

lemma unprintable_split:
  "\<not> list_all printable us \<Longrightarrow>
     \<exists>pre u post. us = pre @ u # post \<and> list_all printable pre \<and> \<not> printable u"
proof (induction us)
  case Nil
  then show ?case by simp
next
  case (Cons a us)
  show ?case
  proof (cases "printable a")
    case False
    then have "a # us = [] @ a # us \<and> list_all printable [] \<and> \<not> printable a" by simp
    then show ?thesis by blast
  next
    case True
    then have "\<not> list_all printable us" using Cons.prems by simp
    then obtain pre u post where "us = pre @ u # post" "list_all printable pre" "\<not> printable u"
      using Cons.IH by blast
    then have "a # us = (a # pre) @ u # post \<and> list_all printable (a # pre) \<and> \<not> printable u"
      using True by simp
    then show ?thesis by blast
  qed
qed

lemma each_url_Cons:
  "each_url env openai (u # us) s =
     (fst (url_events env openai u s) # fst (each_url env openai us (snd (url_events env openai u s))),
      snd (each_url env openai us (snd (url_events env openai u s))))"
  by (simp add: case_prod_beta)

lemma length_each_url: "length (fst (each_url env openai us s)) = length us"
proof (induction us arbitrary: s)
  case Nil
  then show ?case by simp
next
  case (Cons u us)
  show ?case
    unfolding each_url_Cons by (simp add: Cons.IH)
qed

lemma rendered_append: "rendered (xs @ ys) = rendered xs @ rendered ys"
  by (induction xs rule: rendered.induct) auto

lemma url_events_log:
  "snd (snd (url_events env openai u s)) = snd s @ [Render u]
   \<or> snd (snd (url_events env openai u s)) = snd s @ [Render u, Extract u]"
proof -
  obtain r s1 where a: "scrapeWebsite env u s = (r, s1)"
    by (cases "scrapeWebsite env u s")
  have s1: "snd s1 = snd s @ [Render u]"
    using scrapeWebsite_log [of env u s] a by simp
  show ?thesis
  proof (cases r)
    case (Inl e)
    then show ?thesis using a s1 by (simp add: url_events_def)
  next
    case (Inr p)
    obtain content screenshot where p: "p = (content, screenshot)" by (cases p)
    obtain r2 s2 where e: "extractEventsWithGPT env content screenshot u openai s1 = (r2, s2)"
      by (cases "extractEventsWithGPT env content screenshot u openai s1")
    have s2: "snd s2 = snd s1 @ [Extract u]"
      using extract_log [of env content screenshot u openai s1] e by simp
    show ?thesis
      using a Inr p e s1 s2
      by (cases r2) (simp_all add: url_events_def)
  qed
qed

lemma url_events_rendered:
  "rendered (snd (snd (url_events env openai u s))) = rendered (snd s) @ [u]"
  using url_events_log [of env openai u s] by (auto simp: rendered_append)

lemma each_url_rendered:
  "rendered (snd (snd (each_url env openai us s))) = rendered (snd s) @ us"
proof (induction us arbitrary: s)
  case Nil
  then show ?case by simp
next
  case (Cons u us)
  show ?case
    unfolding each_url_Cons by (simp add: Cons.IH url_events_rendered)
qed

lemma each_url_log_grows:
  "\<exists>cs. snd (snd (each_url env openai us s)) = snd s @ cs"
proof (induction us arbitrary: s)
  case Nil
  then show ?case by simp
next
  case (Cons u us)
  obtain cs where cs: "snd (snd (url_events env openai u s)) = snd s @ cs"
    using url_events_log [of env openai u s] by blast
  obtain cs' where "snd (snd (each_url env openai us (snd (url_events env openai u s))))
                      = snd (snd (url_events env openai u s)) @ cs'"
    using Cons.IH by blast
  then show ?case
    unfolding each_url_Cons using cs by simp
qed

lemma POST_valid:
  assumes "get_prop body ''urls'' = Inr (Some (JArray (x # xs)))"
    and "get_prop body ''apiKey'' = Inr key" and "ToBoolean key"
    and "list_all printable (x # xs)"
  shows "POST env (Inr body) s =
           (\<lparr>res_status = 200, res_error = None,
             res_events = Some (Array_sort env (SortCompare env)
                                  (concat (fst (each_url env (OpenAI key) (x # xs) s))))\<rparr>,
            snd (each_url env (OpenAI key) (x # xs) s))"
  using assms(1,2,3)
  by (simp add: POST_def destructure_Inr no_urls_def for_urls_each_url [OF assms(4)]
        del: each_url.simps for_urls.simps)

lemma POST_abort:
  assumes "get_prop body ''urls'' = Inr (Some (JArray (pre @ u # post)))"
    and "get_prop body ''apiKey'' = Inr key" and "ToBoolean key"
    and "list_all printable pre" and "\<not> printable u"
  shows "POST env (Inr body) s =
           (\<lparr>res_status = 500,
             res_error = Some ''Cannot convert object to primitive value'',
             res_events = None\<rparr>,
            snd (each_url env (OpenAI key) pre s))"
proof -
  have n: "\<not> no_urls (Some (JArray (pre @ u # post)))"
    by (simp add: no_urls_def)
  show ?thesis
    using assms(3) n
    by (simp add: POST_def destructure_Inr [OF assms(1,2)] for_urls_abort [OF assms(4,5)]
          del: each_url.simps for_urls.simps)
qed

section \<open>The sample run, evaluated\<close>

lemma sample_removed:
  "remove_scripts (nodes sample_page) =
     [Element ''HTML'' []
        [Element ''HEAD'' [] [] [] None,
         Element ''BODY'' [] [Text ''Band X - March 15 - $20''] [] None] [] None]"
  by (simp add: remove_scripts_def sample_page_def has_tag_def toLowerCase_def
        toLowerCase_char_def)

lemma sample_page_content:
  "page_content [] (remove_scripts (nodes sample_page)) = Inr ''Band X - March 15 - $20 ''"
  unfolding sample_removed
  by (simp add: page_content_def eventKeywords_def querySelectorAll_star_def keyword_filter_def
        text_lower_def id_lower_def className_string_def property_object_def
        getAttribute_def toLowerCase_def toLowerCase_char_def long_enough_def
        trim_def is_white_space_def blockElements_def document_body_def querySelector_main_def
        has_tag_def)

lemma sample_content:
  "page_evaluate sample_page =
     Inr ''URL: https://www.bluenote.net/newyork/\<newline>\<newline>STRUCTURED DATA:\<newline>\<newline>\<newline>PAGE CONTENT:\<newline>Band X - March 15 - $20 ''"
proof -
  have n: "document_named sample_page = []" and h: "location_href sample_page = ''https://www.bluenote.net/newyork/''"
    by (simp_all add: sample_page_def)
  have d: "structuredData (remove_scripts (nodes sample_page)) = []"
    unfolding sample_removed
    by (simp add: structuredData_def querySelectorAll_star_def is_ld_json_def has_tag_def
          toLowerCase_def toLowerCase_char_def)
  show ?thesis
    by (simp add: page_evaluate_def Let_def n h d sample_page_content)
qed

lemma sample_map_event_1:
  "map_event sample_env (JString ''https://www.bluenote.net/newyork/'')
     (JObject [(''eventName'', JString ''Band X''), (''date'', JString ''March 15, 2030''),
               (''price'', JString ''$20'')]) =
   Inr \<lparr>venue = JString ''bluenote.net'', eventName = JString ''Band X'',
        date = JString ''March 15, 2030'', time = JString ''TBA'', price = Some (JString ''$20''),
        description = None, url = JString ''https://www.bluenote.net/newyork/''\<rparr>"
  by (simp add: map_event_def or_else_def sample_env_def)

lemma sample_map_event_2:
  "map_event sample_env (JString ''https://www.bluenote.net/newyork/'')
     (JObject [(''title'', JString ''Late Set'')]) =
   Inr \<lparr>venue = JString ''bluenote.net'', eventName = JString ''Late Set'',
        date = JString ''TBA'', time = JString ''TBA'', price = None,
        description = None, url = JString ''https://www.bluenote.net/newyork/''\<rparr>"
  by (simp add: map_event_def or_else_def sample_env_def)

lemma sample_try_extract:
  "try_extract sample_env (JString ''https://www.bluenote.net/newyork/'') (Inr [Some sample_reply]) =
     Inr sample_events"
proof -
  have r: "sample_reply \<noteq> []" by (simp add: sample_reply_def)
  have p: "JSON_parse sample_env sample_reply = Inr sample_parsed"
    by (simp add: sample_env_def)
  have e: "events_of sample_parsed = Inr (JArray
       [JObject [(''eventName'', JString ''Band X''), (''date'', JString ''March 15, 2030''),
                 (''price'', JString ''$20'')],
        JObject [(''title'', JString ''Late Set'')]])"
    by (simp add: events_of_def sample_parsed_def or_else_def)
  show ?thesis
    by (simp add: try_extract_def r p e sample_map_event_1 sample_map_event_2 sample_events_def)
qed

lemma sample_url_events_down:
  "url_events sample_env (OpenAI (Some (JString ''sk-test''))) (JString ''https://down.test/'') (w, cs) =
     ([], (Suc w, cs @ [Render (JString ''https://down.test/'')]))"
  by (simp add: url_events_def scrapeWebsite_def sample_env_def)

lemma sample_scrape_up:
  "scrapeWebsite sample_env (JString ''https://www.bluenote.net/newyork/'') (w, cs) =
     (Inr (''URL: https://www.bluenote.net/newyork/\<newline>\<newline>STRUCTURED DATA:\<newline>\<newline>\<newline>PAGE CONTENT:\<newline>Band X - March 15 - $20 '', ''/9j/4AAQ''),
      (Suc w, cs @ [Render (JString ''https://www.bluenote.net/newyork/'')]))"
  by (simp add: scrapeWebsite_def sample_env_def sample_content)

lemma sample_extract_up:
  "extractEventsWithGPT sample_env content shot (JString ''https://www.bluenote.net/newyork/'')
     (OpenAI (Some (JString ''sk-test''))) (w, cs) =
     (Inr sample_events, (Suc w, cs @ [Extract (JString ''https://www.bluenote.net/newyork/'')]))"
proof -
  have c: "chat_completions_create sample_env (OpenAI (Some (JString ''sk-test''))) content shot u w'
             = (Inr [Some sample_reply], Suc w')" for u w'
    by (simp add: sample_env_def)
  show ?thesis
    by (simp add: extractEventsWithGPT_def c sample_try_extract)
qed

lemma sample_url_events_up:
  "url_events sample_env (OpenAI (Some (JString ''sk-test''))) (JString ''https://www.bluenote.net/newyork/'') (w, cs) =
     (sample_events,
      (Suc (Suc w), cs @ [Render (JString ''https://www.bluenote.net/newyork/''),
                          Extract (JString ''https://www.bluenote.net/newyork/'')]))"
  by (simp add: url_events_def sample_scrape_up sample_extract_up)

lemma sample_try_url_up:
  "try_url sample_env (OpenAI (Some (JString ''sk-test''))) (JString ''https://www.bluenote.net/newyork/'') (w, cs) =
     (Inr sample_events,
      (Suc (Suc w), cs @ [Render (JString ''https://www.bluenote.net/newyork/''),
                          Extract (JString ''https://www.bluenote.net/newyork/'')]))"
  by (simp add: try_url_def sample_scrape_up sample_extract_up)

section \<open>Validation and the batch\<close>

lemma each_url_first_render:
  "\<exists>cs. snd (snd (each_url env openai (x # xs) s)) = snd s @ Render x # cs"
proof -
  obtain c1 where c1: "snd (snd (url_events env openai x s)) = snd s @ Render x # c1"
    using url_events_log [of env openai x s] by auto
  obtain c2 where c2: "snd (snd (each_url env openai xs (snd (url_events env openai x s))))
                         = snd (snd (url_events env openai x s)) @ c2"
    using each_url_log_grows by blast
  have "snd (snd (each_url env openai (x # xs) s)) = snd s @ Render x # (c1 @ c2)"
    unfolding each_url_Cons using c1 c2 by simp
  then show ?thesis ..
qed

lemma POST_passed:
  assumes "get_prop body ''urls'' = Inr (Some (JArray (x # xs)))"
    and "get_prop body ''apiKey'' = Inr key" and "ToBoolean key"
  shows "(if list_all printable (x # xs)
          then POST env (Inr body) s =
                 (\<lparr>res_status = 200, res_error = None,
                   res_events = Some (Array_sort env (SortCompare env)
                                        (concat (fst (each_url env (OpenAI key) (x # xs) s))))\<rparr>,
                  snd (each_url env (OpenAI key) (x # xs) s))
          else \<exists>pre. fst (POST env (Inr body) s) =
                 \<lparr>res_status = 500,
                   res_error = Some ''Cannot convert object to primitive value'',
                   res_events = None\<rparr>
               \<and> snd (POST env (Inr body) s) = snd (each_url env (OpenAI key) pre s)
               \<and> (printable x \<longrightarrow> (\<exists>pre'. pre = x # pre')))"
proof (cases "list_all printable (x # xs)")
  case True
  then show ?thesis
    using POST_valid [OF assms True] by simp
next
  case False
  then obtain pre u post where d: "x # xs = pre @ u # post" and p: "list_all printable pre"
    and u: "\<not> printable u"
    using unprintable_split by blast
  have a: "get_prop body ''urls'' = Inr (Some (JArray (pre @ u # post)))"
    using assms(1) d by simp
  have h: "printable x \<longrightarrow> (\<exists>pre'. pre = x # pre')"
    using d u by (cases pre) auto
  show ?thesis
    using False POST_abort [OF a assms(2,3) p u, of env s] h by auto
qed

text \<open>
  Claim C1. A request whose body yields \<open>urls\<close> and \<open>apiKey\<close> is rejected by validation
  exactly when \<open>urls\<close> is missing, not an array or the empty array, or \<open>apiKey\<close> is missing or
  falsy (for a string: empty). The rejection is a response with status 400, an error string
  and no events, and it leaves the state as it was: nothing was rendered or extracted. No
  other request is answered with 400: the answer is 200 with events when every URL can be
  converted to a string, and otherwise the 500 of the outer \<^verbatim>\<open>catch\<close>, whose error is the one
  of the conversion and not one of validation.
\<close>

theorem validation_rejects_exactly:
  assumes "get_prop body ''urls'' = Inr urls" and "get_prop body ''apiKey'' = Inr key"
  shows "(if urls = None \<or> \<not> Array_isArray urls \<or> urls = Some (JArray [])
             \<or> key = None \<or> \<not> ToBoolean key
          then res_status (fst (POST env (Inr body) s)) = 400
               \<and> (\<exists>m. res_error (fst (POST env (Inr body) s)) = Some m)
               \<and> res_events (fst (POST env (Inr body) s)) = None
               \<and> snd (POST env (Inr body) s) = s
          else if list_all printable (array_elements urls)
          then res_status (fst (POST env (Inr body) s)) = 200
               \<and> res_error (fst (POST env (Inr body) s)) = None
               \<and> (\<exists>evs. res_events (fst (POST env (Inr body) s)) = Some evs)
          else res_status (fst (POST env (Inr body) s)) = 500
               \<and> res_error (fst (POST env (Inr body) s))
                   = Some ''Cannot convert object to primitive value''
               \<and> res_events (fst (POST env (Inr body) s)) = None)
         \<and> (\<forall>k. key = Some (JString k) \<longrightarrow> (ToBoolean key \<longleftrightarrow> k \<noteq> []))
         \<and> (\<forall>u. printable u \<longleftrightarrow> (\<exists>line. ToString (Number_toString env) u = Inr line))"
proof (intro conjI)
  have d: "destructure (Inr body) = Inr (urls, key)"
    using assms by (rule destructure_Inr)
  show "if urls = None \<or> \<not> Array_isArray urls \<or> urls = Some (JArray [])
             \<or> key = None \<or> \<not> ToBoolean key
          then res_status (fst (POST env (Inr body) s)) = 400
               \<and> (\<exists>m. res_error (fst (POST env (Inr body) s)) = Some m)
               \<and> res_events (fst (POST env (Inr body) s)) = None
               \<and> snd (POST env (Inr body) s) = s
          else if list_all printable (array_elements urls)
          then res_status (fst (POST env (Inr body) s)) = 200
               \<and> res_error (fst (POST env (Inr body) s)) = None
               \<and> (\<exists>evs. res_events (fst (POST env (Inr body) s)) = Some evs)
          else res_status (fst (POST env (Inr body) s)) = 500
               \<and> res_error (fst (POST env (Inr body) s))
                   = Some ''Cannot convert object to primitive value''
               \<and> res_events (fst (POST env (Inr body) s)) = None"
  proof (cases "urls = None \<or> \<not> Array_isArray urls \<or> urls = Some (JArray [])
             \<or> key = None \<or> \<not> ToBoolean key")
    case True
    have k: "key = None \<Longrightarrow> \<not> ToBoolean key" by simp
    show ?thesis
      using True k by (auto simp: POST_def d no_urls_iff)
  next
    case False
    then obtain v where v: "urls = Some v" by auto
    from False v obtain ys where ys: "v = JArray ys" by (cases v) auto
    from False v ys obtain x xs where x: "ys = x # xs" by (cases ys) auto
    have u: "get_prop body ''urls'' = Inr (Some (JArray (x # xs)))"
      using assms(1) v ys x by simp
    have t: "ToBoolean key" using False by simp
    have e: "array_elements urls = x # xs" using v ys x by simp
    show ?thesis
      using False POST_passed [OF u assms(2) t, of env s] unfolding e
      by (auto split: if_splits)
  qed
  show "\<forall>k. key = Some (JString k) \<longrightarrow> (ToBoolean key \<longleftrightarrow> k \<noteq> [])"
    by auto
  show "\<forall>u. printable u \<longleftrightarrow> (\<exists>line. ToString (Number_toString env) u = Inr line)"
    using ToString_printable by blast
qed

theorem validation_rejects_exactly_witness:
  "res_status (fst (POST sample_env (Inr (JObject [(''urls'', JArray [])])) (0, []))) = 400
   \<and> snd (POST sample_env (Inr (JObject [(''urls'', JArray [])])) (0, [])) = (0, [])
   \<and> res_status (fst (POST sample_env
        (Inr (JObject [(''urls'', JArray [JString ''https://www.bluenote.net/newyork/''])]))
        (0, []))) = 400
   \<and> res_events (fst (POST sample_env
        (Inr (JObject [(''urls'', JArray [JString ''https://www.bluenote.net/newyork/''])]))
        (0, []))) = None
   \<and> res_status (fst (POST sample_env
        (Inr (JObject [(''urls'', JArray [JString ''https://www.bluenote.net/newyork/'']),
                       (''apiKey'', JString ''sk-test'')]))
        (0, []))) = 200
   \<and> res_status (fst (POST sample_env
        (Inr (JObject [(''urls'', JArray [sample_unprintable]),
                       (''apiKey'', JString ''sk-test'')]))
        (0, []))) = 500"
  using validation_rejects_exactly
          [of "JObject [(''urls'', JArray [])]" "Some (JArray [])" None sample_env "(0, [])"]
        validation_rejects_exactly
          [of "JObject [(''urls'', JArray [JString ''https://www.bluenote.net/newyork/''])]"
              "Some (JArray [JString ''https://www.bluenote.net/newyork/''])" None
              sample_env "(0, [])"]
        validation_rejects_exactly
          [of "JObject [(''urls'', JArray [JString ''https://www.bluenote.net/newyork/'']),
                        (''apiKey'', JString ''sk-test'')]"
              "Some (JArray [JString ''https://www.bluenote.net/newyork/''])"
              "Some (JString ''sk-test'')" sample_env "(0, [])"]
        validation_rejects_exactly
          [of "JObject [(''urls'', JArray [sample_unprintable]),
                        (''apiKey'', JString ''sk-test'')]"
              "Some (JArray [sample_unprintable])"
              "Some (JString ''sk-test'')" sample_env "(0, [])"]
  by (simp add: sample_unprintable_def)

text \<open>
  Claim C10. Validation looks at nothing but the array being non-empty and the key being
  truthy: whatever the elements of \<open>urls\<close> are, and whatever non-empty string the key is, the
  answer is not a validation error. When the first element can be converted to a string for
  the log line, as every string and every number can, the first call made is its rendering;
  when all elements can, the status is 200 and every element is rendered, in order. When
  one cannot, the status is 500.
\<close>

theorem validation_looks_no_further:
  assumes "get_prop body ''urls'' = Inr (Some (JArray (x # xs)))"
    and "get_prop body ''apiKey'' = Inr (Some (JString k))" and "k \<noteq> []"
  shows "res_status (fst (POST env (Inr body) s)) \<noteq> 400
         \<and> res_error (fst (POST env (Inr body) s)) \<noteq> Some ''No URLs provided''
         \<and> res_error (fst (POST env (Inr body) s)) \<noteq> Some ''OpenAI API key is required''
         \<and> (printable x \<longrightarrow>
              (\<exists>cs. snd (snd (POST env (Inr body) s)) = snd s @ Render x # cs))
         \<and> (list_all printable (x # xs) \<longrightarrow>
              res_status (fst (POST env (Inr body) s)) = 200
              \<and> res_error (fst (POST env (Inr body) s)) = None
              \<and> rendered (snd (snd (POST env (Inr body) s))) = rendered (snd s) @ x # xs)
         \<and> (\<not> list_all printable (x # xs) \<longrightarrow>
              res_status (fst (POST env (Inr body) s)) = 500
              \<and> res_events (fst (POST env (Inr body) s)) = None)
         \<and> (\<forall>u. printable u \<longleftrightarrow> (\<exists>line. ToString (Number_toString env) u = Inr line))
         \<and> (\<forall>t. printable (JString t)) \<and> (\<forall>n. printable (JNumber n))"
proof -
  let ?c = "OpenAI (Some (JString k))"
  have t: "ToBoolean (Some (JString k))" using assms(3) by simp
  note p = POST_passed [OF assms(1,2) t, of env s]
  have a: "res_status (fst (POST env (Inr body) s)) \<noteq> 400
           \<and> res_error (fst (POST env (Inr body) s)) \<noteq> Some ''No URLs provided''
           \<and> res_error (fst (POST env (Inr body) s)) \<noteq> Some ''OpenAI API key is required''"
    using p by (auto split: if_splits)
  have b: "printable x \<longrightarrow> (\<exists>cs. snd (snd (POST env (Inr body) s)) = snd s @ Render x # cs)"
  proof
    assume x: "printable x"
    show "\<exists>cs. snd (snd (POST env (Inr body) s)) = snd s @ Render x # cs"
    proof (cases "list_all printable (x # xs)")
      case True
      then have "snd (POST env (Inr body) s) = snd (each_url env ?c (x # xs) s)"
        using p by simp
      then show ?thesis using each_url_first_render [of env ?c x xs s] by simp
    next
      case False
      then obtain pre' where "snd (POST env (Inr body) s) = snd (each_url env ?c (x # pre') s)"
        using p x by auto
      then show ?thesis using each_url_first_render [of env ?c x pre' s] by simp
    qed
  qed
  have c: "list_all printable (x # xs) \<longrightarrow>
              res_status (fst (POST env (Inr body) s)) = 200
              \<and> res_error (fst (POST env (Inr body) s)) = None
              \<and> rendered (snd (snd (POST env (Inr body) s))) = rendered (snd s) @ x # xs"
  proof
    assume "list_all printable (x # xs)"
    then have "POST env (Inr body) s =
                 (\<lparr>res_status = 200, res_error = None,
                   res_events = Some (Array_sort env (SortCompare env)
                                        (concat (fst (each_url env ?c (x # xs) s))))\<rparr>,
                  snd (each_url env ?c (x # xs) s))"
      using p by simp
    then show "res_status (fst (POST env (Inr body) s)) = 200
              \<and> res_error (fst (POST env (Inr body) s)) = None
              \<and> rendered (snd (snd (POST env (Inr body) s))) = rendered (snd s) @ x # xs"
      using each_url_rendered [of env ?c "x # xs" s] by simp
  qed
  have d: "\<not> list_all printable (x # xs) \<longrightarrow>
              res_status (fst (POST env (Inr body) s)) = 500
              \<and> res_events (fst (POST env (Inr body) s)) = None"
    using p by auto
  have e: "\<forall>u. printable u \<longleftrightarrow> (\<exists>line. ToString (Number_toString env) u = Inr line)"
    using ToString_printable by blast
  have f: "\<forall>t. printable (JString t)" and g: "\<forall>n. printable (JNumber n)"
    by simp_all
  show ?thesis
    using a b c d e f g by blast
qed

theorem validation_looks_no_further_witness:
  "res_status (fst (POST sample_env
      (Inr (JObject [(''urls'', JArray [JString [], JNumber 5]), (''apiKey'', JString '' '')]))
      (0, []))) = 200
   \<and> rendered (snd (snd (POST sample_env
      (Inr (JObject [(''urls'', JArray [JString [], JNumber 5]), (''apiKey'', JString '' '')]))
      (0, [])))) = [JString [], JNumber 5]
   \<and> (\<exists>cs. snd (snd (POST sample_env
      (Inr (JObject [(''urls'', JArray [JString [], JNumber 5]), (''apiKey'', JString '' '')]))
      (0, []))) = Render (JString []) # cs)"
proof -
  note w = validation_looks_no_further
          [of "JObject [(''urls'', JArray [JString [], JNumber 5]), (''apiKey'', JString '' '')]"
              "JString []" "[JNumber 5]" "'' ''" sample_env "(0, [])"]
  have p: "list_all printable [JString [], JNumber 5]" and q: "printable (JString [])"
    by simp_all
  have h1: "get_prop (JObject [(''urls'', JArray [JString [], JNumber 5]), (''apiKey'', JString '' '')])
             ''urls'' = Inr (Some (JArray [JString [], JNumber 5]))"
    and h2: "get_prop (JObject [(''urls'', JArray [JString [], JNumber 5]), (''apiKey'', JString '' '')])
             ''apiKey'' = Inr (Some (JString '' ''))"
    and h3: "'' '' \<noteq> []"
    by simp_all
  note w' = w [OF h1 h2 h3]
  have a: "res_status (fst (POST sample_env
      (Inr (JObject [(''urls'', JArray [JString [], JNumber 5]), (''apiKey'', JString '' '')]))
      (0, []))) = 200
     \<and> res_error (fst (POST sample_env
      (Inr (JObject [(''urls'', JArray [JString [], JNumber 5]), (''apiKey'', JString '' '')]))
      (0, []))) = None
     \<and> rendered (snd (snd (POST sample_env
      (Inr (JObject [(''urls'', JArray [JString [], JNumber 5]), (''apiKey'', JString '' '')]))
      (0, [])))) = rendered (snd (0::nat, [])) @ [JString [], JNumber 5]"
    using w' [THEN conjunct2, THEN conjunct2, THEN conjunct2, THEN conjunct2, THEN conjunct1] p
    by blast
  have b: "\<exists>cs. snd (snd (POST sample_env
      (Inr (JObject [(''urls'', JArray [JString [], JNumber 5]), (''apiKey'', JString '' '')]))
      (0, []))) = snd (0::nat, []) @ Render (JString []) # cs"
    using w' [THEN conjunct2, THEN conjunct2, THEN conjunct2, THEN conjunct1] q
    by blast
  show ?thesis
    using a b by simp
qed

section \<open>The batch\<close>

lemma printable_batch_is_concatenation:
  assumes "get_prop body ''urls'' = Inr (Some (JArray (x # xs)))"
    and "get_prop body ''apiKey'' = Inr key" and "ToBoolean key"
    and "list_all printable (x # xs)"
  shows "POST env (Inr body) s =
           (\<lparr>res_status = 200, res_error = None,
             res_events = Some (Array_sort env (SortCompare env)
                                  (concat (fst (each_url env (OpenAI key) (x # xs) s))))\<rparr>,
            snd (each_url env (OpenAI key) (x # xs) s))
         \<and> for_urls env (OpenAI key) (x # xs) [] s =
             (Inr (concat (fst (each_url env (OpenAI key) (x # xs) s))),
              snd (each_url env (OpenAI key) (x # xs) s))
         \<and> length (fst (each_url env (OpenAI key) (x # xs) s)) = length (x # xs)
         \<and> length (concat (fst (each_url env (OpenAI key) (x # xs) s))) =
             sum_list (map length (fst (each_url env (OpenAI key) (x # xs) s)))
         \<and> rendered (snd (snd (for_urls env (OpenAI key) (x # xs) [] s))) = rendered (snd s) @ x # xs"
proof -
  let ?c = "OpenAI key"
  have a: "POST env (Inr body) s =
           (\<lparr>res_status = 200, res_error = None,
             res_events = Some (Array_sort env (SortCompare env)
                                  (concat (fst (each_url env ?c (x # xs) s))))\<rparr>,
            snd (each_url env ?c (x # xs) s))"
    using assms by (rule POST_valid)
  have b: "for_urls env ?c (x # xs) [] s =
             (Inr (concat (fst (each_url env ?c (x # xs) s))), snd (each_url env ?c (x # xs) s))"
    using for_urls_each_url [OF assms(4), of env ?c "[]" s] by simp
  have c: "length (fst (each_url env ?c (x # xs) s)) = length (x # xs)"
    by (rule length_each_url)
  have d: "length (concat (fst (each_url env ?c (x # xs) s))) =
             sum_list (map length (fst (each_url env ?c (x # xs) s)))"
    by (simp add: length_concat)
  have e: "rendered (snd (snd (for_urls env ?c (x # xs) [] s))) = rendered (snd s) @ x # xs"
    unfolding b using each_url_rendered [of env ?c "x # xs" s] by simp
  show ?thesis
    by (intro conjI) (rule a b c d e)+
qed

lemma failed_url_contributes_nothing:
  assumes "printable u"
  shows "(fst (scrapeWebsite env u s0) = Inl e \<longrightarrow>
            fst (url_events env openai u s0) = []
            \<and> for_urls env openai (u # us) acc s0 =
                for_urls env openai us acc (snd (scrapeWebsite env u s0)))
         \<and> (scrapeWebsite env u s0 = (Inr (content, screenshot), s1)
            \<and> extractEventsWithGPT env content screenshot u openai s1 = (Inr evs, s2) \<longrightarrow>
            fst (url_events env openai u s0) = evs
            \<and> for_urls env openai (u # us) acc s0 = for_urls env openai us (acc @ evs) s2)"
proof -
  obtain t where t: "ToString (Number_toString env) u = Inr t"
    using printable_ToString [OF assms] by blast
  show ?thesis
    by (cases "scrapeWebsite env u s0") (auto simp: url_events_def try_url_def t)
qed

text \<open>
  Claim C2. One URL that cannot be converted to a string ends the batch. The request
  holds the venue page, from which two events are extracted, and then the URL
  \<^verbatim>\<open>{"toString": null}\<close>. For the second URL the log line at the head of the \<^verbatim>\<open>try\<close> block
  throws, and the log line of the \<^verbatim>\<open>catch\<close> block throws again, this time out of the loop:
  the answer is the status 500 without events, and the two events of the first URL are
  lost.
\<close>

theorem unprintable_url_aborts_batch:
  "url_events sample_env (OpenAI (Some (JString ''sk-test'')))
      (JString ''https://www.bluenote.net/newyork/'') (0, [])
     = (sample_events,
        (2, [Render (JString ''https://www.bluenote.net/newyork/''),
             Extract (JString ''https://www.bluenote.net/newyork/'')]))
   \<and> ToString (Number_toString sample_env) sample_unprintable
       = Inl (Error ''Cannot convert object to primitive value'')
   \<and> try_url sample_env (OpenAI (Some (JString ''sk-test''))) sample_unprintable
        (2, [Render (JString ''https://www.bluenote.net/newyork/''),
             Extract (JString ''https://www.bluenote.net/newyork/'')])
       = (Inl (Error ''Cannot convert object to primitive value''),
          (2, [Render (JString ''https://www.bluenote.net/newyork/''),
               Extract (JString ''https://www.bluenote.net/newyork/'')]))
   \<and> for_urls sample_env (OpenAI (Some (JString ''sk-test'')))
        [JString ''https://www.bluenote.net/newyork/'', sample_unprintable] [] (0, [])
       = (Inl (Error ''Cannot convert object to primitive value''),
          (2, [Render (JString ''https://www.bluenote.net/newyork/''),
               Extract (JString ''https://www.bluenote.net/newyork/'')]))
   \<and> POST sample_env
        (Inr (JObject [(''urls'', JArray [JString ''https://www.bluenote.net/newyork/'',
                                          sample_unprintable]),
                       (''apiKey'', JString ''sk-test'')]))
        (0, [])
       = (\<lparr>res_status = 500, res_error = Some ''Cannot convert object to primitive value'',
           res_events = None\<rparr>,
          (2, [Render (JString ''https://www.bluenote.net/newyork/''),
               Extract (JString ''https://www.bluenote.net/newyork/'')]))"
proof -
  let ?u = "JString ''https://www.bluenote.net/newyork/''"
  let ?c = "OpenAI (Some (JString ''sk-test''))"
  let ?s = "(2::nat, [Render ?u, Extract ?u])"
  have a: "url_events sample_env ?c ?u (0, []) = (sample_events, ?s)"
    using sample_url_events_up [of 0 "[]"] by (simp add: numeral_2_eq_2)
  have b: "ToString (Number_toString sample_env) sample_unprintable
             = Inl (Error ''Cannot convert object to primitive value'')"
    by (simp add: sample_unprintable_def)
  have c: "try_url sample_env ?c sample_unprintable ?s
             = (Inl (Error ''Cannot convert object to primitive value''), ?s)"
    by (simp add: try_url_def b)
  have e: "try_url sample_env ?c ?u (0, []) = (Inr sample_events, ?s)"
    using sample_try_url_up [of 0 "[]"] by (simp add: numeral_2_eq_2)
  have d: "for_urls sample_env ?c [?u, sample_unprintable] [] (0, [])
             = (Inl (Error ''Cannot convert object to primitive value''), ?s)"
    by (simp add: e c b)
  have f: "POST sample_env
        (Inr (JObject [(''urls'', JArray [?u, sample_unprintable]),
                       (''apiKey'', JString ''sk-test'')]))
        (0, [])
       = (\<lparr>res_status = 500, res_error = Some ''Cannot convert object to primitive value'',
           res_events = None\<rparr>, ?s)"
    by (simp add: POST_def destructure_def no_urls_def d del: for_urls.simps)
  show ?thesis
    by (intro conjI) (rule a b c d f)+
qed

lemma sample_batch:
  "for_urls sample_env (OpenAI (Some (JString ''sk-test'')))
      [JString ''https://down.test/'', JString ''https://www.bluenote.net/newyork/''] [] (0, []) =
     (Inr sample_events,
      (3, [Render (JString ''https://down.test/''),
           Render (JString ''https://www.bluenote.net/newyork/''),
           Extract (JString ''https://www.bluenote.net/newyork/'')]))"
proof -
  have e: "each_url sample_env (OpenAI (Some (JString ''sk-test'')))
      [JString ''https://down.test/'', JString ''https://www.bluenote.net/newyork/''] (0, []) =
     ([[], sample_events],
      (3, [Render (JString ''https://down.test/''),
           Render (JString ''https://www.bluenote.net/newyork/''),
           Extract (JString ''https://www.bluenote.net/newyork/'')]))"
    by (simp add: sample_url_events_down sample_url_events_up numeral_3_eq_3)
  have p: "list_all printable [JString ''https://down.test/'', JString ''https://www.bluenote.net/newyork/'']"
    by simp
  show ?thesis
    unfolding for_urls_each_url [OF p] e by simp
qed

section \<open>Facts about sorting\<close>




















section \<open>Facts about the comparator\<close>

lemma new_Date_string:
  "new_Date env (JString d) = Inr (case Date_parse env (JString d) of None \<Rightarrow> NaN | Some t \<Rightarrow> Num t)"
  by (simp add: new_Date_def)

lemma ToPrimitive_returns: "(\<exists>p. ToPrimitive nts v = Inr p) \<longleftrightarrow> printable v"
proof (cases v)
  case (JArray xs)
  then show ?thesis
    using ToString_printable [of nts "JArray xs"]
    by (cases "ToString nts (JArray xs)") (auto simp del: ToString.simps printable.simps)
next
  case (JObject kvs)
  then show ?thesis
    by (auto split: option.splits)
qed simp_all

lemma ToPrimitive_throws:
  "ToPrimitive nts v = Inl e \<Longrightarrow> e = Error ''Cannot convert object to primitive value''"
proof (cases v)
  case (JArray xs)
  assume "ToPrimitive nts v = Inl e"
  then show ?thesis
    using JArray ToString_throws [of nts "JArray xs" e]
    by (cases "ToString nts (JArray xs)") (auto simp del: ToString.simps)
next
  case (JObject kvs)
  assume "ToPrimitive nts v = Inl e"
  then show ?thesis
    using JObject by (auto split: option.splits)
qed simp_all

lemma new_Date_returns: "(\<exists>d. new_Date env v = Inr d) \<longleftrightarrow> printable v"
  using ToPrimitive_returns [of "Number_toString env" v]
  by (cases "ToPrimitive (Number_toString env) v") (auto simp: new_Date_def)

lemma try_compare_returns:
  "(\<exists>v. try_compare env a b = Inr v) \<longleftrightarrow> printable (date a) \<and> printable (date b)"
  using new_Date_returns [of env "date a"] new_Date_returns [of env "date b"]
  by (cases "new_Date env (date a)"; cases "new_Date env (date b)")
     (auto simp: try_compare_def)

lemma SortCompare_times:
  "SortCompare env a b =
     (case event_time env a of
        None \<Rightarrow> 0
      | Some ta \<Rightarrow> (case event_time env b of None \<Rightarrow> 0 | Some tb \<Rightarrow> ta - tb))"
  by (cases "new_Date env (date a)"; cases "new_Date env (date b)")
     (auto simp: SortCompare_def compareFn_def try_compare_def event_time_def minus_number_def
           split: number.splits)

lemma SortCompare_unparseable:
  "unparseable env a \<or> unparseable env b \<Longrightarrow> SortCompare env a b = 0"
  by (auto simp: SortCompare_times unparseable_def split: option.splits)

lemma SortCompare_parseable:
  "event_time env a = Some ta \<Longrightarrow> event_time env b = Some tb \<Longrightarrow> SortCompare env a b = ta - tb"
  by (simp add: SortCompare_times)

lemma compareFn_caught:
  "try_compare env a b = Inl e \<Longrightarrow> compareFn env a b = Num 0 \<and> SortCompare env a b = 0"
  by (simp add: compareFn_def SortCompare_def)

lemma compareFn_NaN:
  assumes "printable (date a)" and "printable (date b)"
    and "unparseable env a \<or> unparseable env b"
  shows "try_compare env a b = Inr NaN \<and> compareFn env a b = NaN"
proof -
  obtain da where da: "new_Date env (date a) = Inr da"
    using new_Date_returns assms(1) by blast
  obtain db where db: "new_Date env (date b) = Inr db"
    using new_Date_returns assms(2) by blast
  have "da = NaN \<or> db = NaN"
    using assms(3) da db by (auto simp: unparseable_def event_time_def split: number.splits)
  then show ?thesis
    by (auto simp: compareFn_def try_compare_def da db minus_number_def split: number.splits)
qed

lemma compareFn_parseable:
  assumes "event_time env a = Some ta" and "event_time env b = Some tb"
  shows "try_compare env a b = Inr (Num (ta - tb)) \<and> compareFn env a b = Num (ta - tb)"
proof -
  have "new_Date env (date a) = Inr (Num ta)" and "new_Date env (date b) = Inr (Num tb)"
    using assms by (auto simp: event_time_def split: sum.splits number.splits)
  then show ?thesis
    by (simp add: compareFn_def try_compare_def minus_number_def)
qed




section \<open>The sort\<close>

lemma sample_times:
  "event_time sample_env (sample_gig ''March 15, 2030'') = Some 1899763200000"
  "event_time sample_env (sample_gig ''March 1, 2030'') = Some 1898553600000"
  "event_time sample_env (sample_gig ''TBA'') = None"
  "event_time sample_env (sample_gig ''TBD'') = None"
  "event_time reversing_env (sample_gig ''March 15, 2030'') = Some 1899763200000"
  "event_time reversing_env (sample_gig ''March 1, 2030'') = Some 1898553600000"
  "event_time reversing_env (sample_gig ''TBA'') = None"
  "event_time reversing_env (sample_gig ''TBD'') = None"
  by (simp_all add: event_time_def new_Date_def sample_gig_def sample_env_def reversing_env_def)




section \<open>The comparator\<close>

text \<open>
  A date is whatever the model put there. The reply
  \<^verbatim>\<open>{"events": [{"eventName": "Band X", "date": {"toString": "a", "valueOf": "b"}}]}\<close>
  gives an event whose date cannot be made a primitive: \<^verbatim>\<open>new Date\<close> throws, and the
  comparator returns 0 from its \<^verbatim>\<open>catch\<close>.
\<close>

theorem comparator_catch_is_reachable:
  \<open>map_event sample_env (JString ''https://www.bluenote.net/newyork/'')
      (JObject [(''eventName'', JString ''Band X''), (''date'', sample_bad_date)])
     = Inr sample_bad_gig
   \<and> date sample_bad_gig = JObject [(''toString'', JString ''a''), (''valueOf'', JString ''b'')]
   \<and> new_Date sample_env (date sample_bad_gig)
       = Inl (Error ''Cannot convert object to primitive value'')
   \<and> try_compare sample_env sample_bad_gig (sample_gig ''March 1, 2030'')
       = Inl (Error ''Cannot convert object to primitive value'')
   \<and> compareFn sample_env sample_bad_gig (sample_gig ''March 1, 2030'') = Num 0\<close>
  by (simp add: map_event_def or_else_def sample_env_def sample_bad_gig_def sample_bad_date_def
        new_Date_def try_compare_def compareFn_def)

text \<open>
  Claim C9, amended. The comparator always returns a number. Constructing a date throws
  exactly when the date cannot be made a primitive, which no string does: for a string
  that does not parse the time is NaN. The \<^verbatim>\<open>try\<close> block completes exactly when both dates
  can be made primitives; when it does not, the \<^verbatim>\<open>catch\<close> returns 0. When it completes and
  one of the dates is unparseable, also when only one is, the comparator returns NaN and
  the sort reads it as 0. Two dates that parse are compared by their difference.
\<close>

theorem comparator_total:
  "compareFn env a b = (case try_compare env a b of Inl error \<Rightarrow> Num 0 | Inr v \<Rightarrow> v)
   \<and> SortCompare env a b = (case compareFn env a b of NaN \<Rightarrow> 0 | Num v \<Rightarrow> v)
   \<and> (\<forall>d. new_Date env (JString d)
            = Inr (case Date_parse env (JString d) of None \<Rightarrow> NaN | Some t \<Rightarrow> Num t))
   \<and> (\<forall>v. (\<exists>d. new_Date env v = Inr d) \<longleftrightarrow> printable v)
   \<and> (\<forall>v. printable v \<longleftrightarrow> (\<exists>line. ToString (Number_toString env) v = Inr line))
   \<and> ((\<exists>v. try_compare env a b = Inr v) \<longleftrightarrow> printable (date a) \<and> printable (date b))
   \<and> (\<forall>e. try_compare env a b = Inl e \<longrightarrow> compareFn env a b = Num 0 \<and> SortCompare env a b = 0)
   \<and> (printable (date a) \<and> printable (date b) \<and> (unparseable env a \<or> unparseable env b) \<longrightarrow>
        try_compare env a b = Inr NaN \<and> compareFn env a b = NaN \<and> SortCompare env a b = 0)
   \<and> (\<forall>ta tb. event_time env a = Some ta \<and> event_time env b = Some tb \<longrightarrow>
        try_compare env a b = Inr (Num (ta - tb)) \<and> compareFn env a b = Num (ta - tb)
        \<and> SortCompare env a b = ta - tb)"
proof -
  have a: "compareFn env a b = (case try_compare env a b of Inl error \<Rightarrow> Num 0 | Inr v \<Rightarrow> v)"
    by (rule compareFn_def)
  have b: "SortCompare env a b = (case compareFn env a b of NaN \<Rightarrow> 0 | Num v \<Rightarrow> v)"
    by (rule SortCompare_def)
  have c: "\<forall>d. new_Date env (JString d)
            = Inr (case Date_parse env (JString d) of None \<Rightarrow> NaN | Some t \<Rightarrow> Num t)"
    using new_Date_string by blast
  have d: "\<forall>v. (\<exists>d. new_Date env v = Inr d) \<longleftrightarrow> printable v"
    using new_Date_returns by blast
  have e: "\<forall>v. printable v \<longleftrightarrow> (\<exists>line. ToString (Number_toString env) v = Inr line)"
    using ToString_printable by blast
  have f: "(\<exists>v. try_compare env a b = Inr v) \<longleftrightarrow> printable (date a) \<and> printable (date b)"
    by (rule try_compare_returns)
  have g: "\<forall>e. try_compare env a b = Inl e \<longrightarrow> compareFn env a b = Num 0 \<and> SortCompare env a b = 0"
    using compareFn_caught by blast
  have h: "printable (date a) \<and> printable (date b) \<and> (unparseable env a \<or> unparseable env b) \<longrightarrow>
        try_compare env a b = Inr NaN \<and> compareFn env a b = NaN \<and> SortCompare env a b = 0"
    using compareFn_NaN [of a b env] SortCompare_unparseable [of env a b] by blast
  have i: "\<forall>ta tb. event_time env a = Some ta \<and> event_time env b = Some tb \<longrightarrow>
        try_compare env a b = Inr (Num (ta - tb)) \<and> compareFn env a b = Num (ta - tb)
        \<and> SortCompare env a b = ta - tb"
    using compareFn_parseable [of env a _ b] SortCompare_parseable [of env a _ b] by blast
  show ?thesis
    by (intro conjI) (rule a b c d e f g h i)+
qed

theorem comparator_total_witness:
  "try_compare sample_env (sample_gig ''March 15, 2030'') (sample_gig ''TBA'') = Inr NaN
   \<and> SortCompare sample_env (sample_gig ''March 15, 2030'') (sample_gig ''TBA'') = 0
   \<and> SortCompare sample_env (sample_gig ''March 15, 2030'') (sample_gig ''March 1, 2030'')
       = 1209600000
   \<and> SortCompare sample_env sample_bad_gig (sample_gig ''March 1, 2030'') = 0"
proof -
  have u: "unparseable sample_env (sample_gig ''TBA'')"
    by (simp add: unparseable_def sample_times)
  have p: "printable (date (sample_gig ''March 15, 2030''))" "printable (date (sample_gig ''TBA''))"
    by (simp_all add: sample_gig_def)
  have x: "try_compare sample_env sample_bad_gig (sample_gig ''March 1, 2030'')
             = Inl (Error ''Cannot convert object to primitive value'')"
    by (simp add: sample_bad_gig_def sample_bad_date_def new_Date_def try_compare_def)
  note t1 = comparator_total [of sample_env "sample_gig ''March 15, 2030''" "sample_gig ''TBA''"]
  note t2 = comparator_total
              [of sample_env "sample_gig ''March 15, 2030''" "sample_gig ''March 1, 2030''"]
  note t3 = comparator_total [of sample_env sample_bad_gig "sample_gig ''March 1, 2030''"]
  have a: "try_compare sample_env (sample_gig ''March 15, 2030'') (sample_gig ''TBA'') = Inr NaN
           \<and> compareFn sample_env (sample_gig ''March 15, 2030'') (sample_gig ''TBA'') = NaN
           \<and> SortCompare sample_env (sample_gig ''March 15, 2030'') (sample_gig ''TBA'') = 0"
    using t1 [THEN conjunct2, THEN conjunct2, THEN conjunct2, THEN conjunct2, THEN conjunct2,
              THEN conjunct2, THEN conjunct2, THEN conjunct1] u p
    by blast
  have b: "SortCompare sample_env (sample_gig ''March 15, 2030'') (sample_gig ''March 1, 2030'')
             = 1899763200000 - 1898553600000"
    using t2 [THEN conjunct2, THEN conjunct2, THEN conjunct2, THEN conjunct2, THEN conjunct2,
              THEN conjunct2, THEN conjunct2, THEN conjunct2] sample_times(1,2)
    by blast
  have c: "SortCompare sample_env sample_bad_gig (sample_gig ''March 1, 2030'') = 0"
    using t3 [THEN conjunct2, THEN conjunct2, THEN conjunct2, THEN conjunct2, THEN conjunct2,
              THEN conjunct2, THEN conjunct1] x
    by blast
  show ?thesis
    using a b c by simp
qed

section \<open>Facts about the extraction client\<close>

lemma get_prop_field: "ev \<noteq> JNull \<Longrightarrow> get_prop ev k = Inr (field ev k)"
  by (cases ev) (simp_all add: field_def)

lemma get_prop_JNull: "get_prop ev k = Inr v \<Longrightarrow> ev \<noteq> JNull"
  by (cases ev) simp_all

lemma or_else_first_truthy:
  "or_else a (Inr (first_truthy vs d)) = Inr (first_truthy (a # vs) d)"
  by (cases a) (simp_all add: or_else_def)

lemma or_else_default: "or_else a (Inr d) = Inr (first_truthy [a] d)"
  using or_else_first_truthy [of a "[]" d] by simp

lemma first_truthy_Cons: "first_truthy [a] (first_truthy vs d) = first_truthy (a # vs) d"
  by (cases a) simp_all

lemma map_event_JNull: "map_event env u JNull = Inl (Error ''Cannot read properties of null'')"
  by (simp add: map_event_def)

lemma map_event_fields:
  assumes "map_event env u ev = Inr e"
  shows "eventName e = first_truthy [field ev ''eventName'', field ev ''name'', field ev ''title'']
                         (JString ''Unknown Event'')"
    and "date e = first_truthy [field ev ''date''] (JString ''TBA'')"
    and "time e = first_truthy [field ev ''time''] (JString ''TBA'')"
    and "url e = first_truthy [field ev ''url''] u"
    and "price e = field ev ''price''"
    and "description e = field ev ''description''"
proof -
  have n: "ev \<noteq> JNull"
    using assms map_event_JNull [of env u] by auto
  have g: "get_prop ev k = Inr (field ev k)" for k
    using n by (rule get_prop_field)
  have c: "or_else (field ev ''eventName'')
             (or_else (field ev ''name'')
                (or_else (field ev ''title'') (Inr (JString ''Unknown Event''))))
           = Inr (first_truthy [field ev ''eventName'', field ev ''name'', field ev ''title'']
                    (JString ''Unknown Event''))"
    by (simp add: or_else_default first_truthy_Cons)
  have "\<exists>v'. e = \<lparr>venue = v',
          eventName = first_truthy [field ev ''eventName'', field ev ''name'', field ev ''title'']
                        (JString ''Unknown Event''),
          date = first_truthy [field ev ''date''] (JString ''TBA''),
          time = first_truthy [field ev ''time''] (JString ''TBA''),
          price = field ev ''price'', description = field ev ''description'',
          url = first_truthy [field ev ''url''] u\<rparr>"
    using assms unfolding map_event_def g ebind_Inr c or_else_default
    by (auto simp: ebind_eq_Inr first_truthy_Cons)
  then obtain v' where "e = \<lparr>venue = v',
          eventName = first_truthy [field ev ''eventName'', field ev ''name'', field ev ''title'']
                        (JString ''Unknown Event''),
          date = first_truthy [field ev ''date''] (JString ''TBA''),
          time = first_truthy [field ev ''time''] (JString ''TBA''),
          price = field ev ''price'', description = field ev ''description'',
          url = first_truthy [field ev ''url''] u\<rparr>" ..
  then show "eventName e = first_truthy [field ev ''eventName'', field ev ''name'', field ev ''title'']
                         (JString ''Unknown Event'')"
    and "date e = first_truthy [field ev ''date''] (JString ''TBA'')"
    and "time e = first_truthy [field ev ''time''] (JString ''TBA'')"
    and "url e = first_truthy [field ev ''url''] u"
    and "price e = field ev ''price''"
    and "description e = field ev ''description''"
    by simp_all
qed

lemma mapM_Inr:
  "mapM f xs = Inr ys \<Longrightarrow> length ys = length xs \<and> (\<forall>i < length xs. f (xs ! i) = Inr (ys ! i))"
proof (induction xs arbitrary: ys)
  case Nil
  then show ?case by simp
next
  case (Cons x xs)
  from Cons.prems obtain y ys' where y: "f x = Inr y" and ys': "mapM f xs = Inr ys'"
    and eq: "ys = y # ys'"
    by (auto simp: ebind_eq_Inr)
  have "length ys' = length xs \<and> (\<forall>i < length xs. f (xs ! i) = Inr (ys' ! i))"
    using ys' by (rule Cons.IH)
  then show ?case
    using y eq by (auto simp: nth_Cons split: nat.splits)
qed

lemma Array_map_Inr:
  "Array_map f v = Inr ys \<Longrightarrow> \<exists>xs. v = JArray xs \<and> mapM f xs = Inr ys"
  by (cases v) simp_all

lemma Array_map_not_array:
  "\<not> Array_isArray (Some v) \<Longrightarrow> \<exists>e. Array_map f v = Inl e"
  by (cases v) simp_all

lemma events_of_Inr:
  "events_of parsed = Inr v \<Longrightarrow>
     v = first_truthy [field parsed ''events'', field parsed ''data''] (JArray [])"
proof -
  assume a: "events_of parsed = Inr v"
  have n: "parsed \<noteq> JNull"
    using a by (auto simp: events_of_def)
  show ?thesis
    using a by (auto simp: events_of_def get_prop_field [OF n] or_else_default first_truthy_Cons)
qed

lemma try_extract_reply:
  "r \<noteq> [] \<Longrightarrow> JSON_parse env r = Inr parsed \<Longrightarrow>
     try_extract env u (Inr (Some r # rest)) =
       ebind (events_of parsed) (\<lambda>evs. Array_map (map_event env u) evs)"
  by (simp add: try_extract_def)

lemma extract_fst:
  "fst (extractEventsWithGPT env content screenshot u openai s) =
     (case try_extract env u (fst (chat_completions_create env openai content screenshot u (fst s))) of
        Inl error \<Rightarrow> Inr [] | Inr evs \<Rightarrow> Inr evs)"
  by (simp add: extractEventsWithGPT_def split: prod.splits)

text \<open>
  Claim C4. \<^verbatim>\<open>extractEventsWithGPT\<close> always returns an array and never throws, whatever
  the content, the screenshot, the URL, the client and the world are. When the model call
  throws, when there is no choice, when the reply content is null, when the reply does not
  parse, when the events value is not an array, and when an element of it is null, what it
  returns is the empty array.
\<close>

theorem extraction_never_throws:
  "(\<exists>evs. fst (extractEventsWithGPT env content screenshot u openai s) = Inr evs)
   \<and> (\<forall>e. fst (chat_completions_create env openai content screenshot u (fst s)) = Inl e \<longrightarrow>
         fst (extractEventsWithGPT env content screenshot u openai s) = Inr [])
   \<and> (fst (chat_completions_create env openai content screenshot u (fst s)) = Inr [] \<longrightarrow>
         fst (extractEventsWithGPT env content screenshot u openai s) = Inr [])
   \<and> (\<forall>rest. fst (chat_completions_create env openai content screenshot u (fst s))
                = Inr (None # rest) \<longrightarrow>
         fst (extractEventsWithGPT env content screenshot u openai s) = Inr [])
   \<and> (\<forall>r rest e. fst (chat_completions_create env openai content screenshot u (fst s))
                = Inr (Some r # rest) \<and> JSON_parse env r = Inl e \<longrightarrow>
         fst (extractEventsWithGPT env content screenshot u openai s) = Inr [])
   \<and> (\<forall>r rest parsed v. fst (chat_completions_create env openai content screenshot u (fst s))
                = Inr (Some r # rest) \<and> JSON_parse env r = Inr parsed
                \<and> events_of parsed = Inr v \<and> \<not> Array_isArray (Some v) \<longrightarrow>
         fst (extractEventsWithGPT env content screenshot u openai s) = Inr [])
   \<and> (\<forall>r rest parsed xs. fst (chat_completions_create env openai content screenshot u (fst s))
                = Inr (Some r # rest) \<and> JSON_parse env r = Inr parsed
                \<and> events_of parsed = Inr (JArray xs) \<and> JNull \<in> set xs \<longrightarrow>
         fst (extractEventsWithGPT env content screenshot u openai s) = Inr [])"
proof -
  let ?x = "fst (extractEventsWithGPT env content screenshot u openai s)"
  let ?c = "fst (chat_completions_create env openai content screenshot u (fst s))"
  have a: "\<exists>evs. ?x = Inr evs"
    by (rule extract_returns)
  have b: "\<forall>e. ?c = Inl e \<longrightarrow> ?x = Inr []"
    by (simp add: extract_fst try_extract_def)
  have c: "?c = Inr [] \<longrightarrow> ?x = Inr []"
    by (simp add: extract_fst try_extract_def)
  have d: "\<forall>rest. ?c = Inr (None # rest) \<longrightarrow> ?x = Inr []"
    by (simp add: extract_fst try_extract_def)
  have e: "\<forall>r rest e. ?c = Inr (Some r # rest) \<and> JSON_parse env r = Inl e \<longrightarrow> ?x = Inr []"
    by (auto simp: extract_fst try_extract_def)
  have f: "\<forall>r rest parsed v. ?c = Inr (Some r # rest) \<and> JSON_parse env r = Inr parsed
                \<and> events_of parsed = Inr v \<and> \<not> Array_isArray (Some v) \<longrightarrow> ?x = Inr []"
  proof (intro allI impI)
    fix r rest parsed v
    assume h: "?c = Inr (Some r # rest) \<and> JSON_parse env r = Inr parsed
                \<and> events_of parsed = Inr v \<and> \<not> Array_isArray (Some v)"
    then obtain err where "Array_map (map_event env u) v = Inl err"
      using Array_map_not_array by blast
    then show "?x = Inr []"
      using h by (simp add: extract_fst try_extract_def)
  qed
  have m: "JNull \<in> set xs \<Longrightarrow> \<exists>err. mapM (map_event env u) xs = Inl err" for xs
  proof (induction xs)
    case Nil
    then show ?case by simp
  next
    case (Cons x xs)
    then show ?case
      by (cases "map_event env u x") (auto simp: map_event_JNull)
  qed
  have g: "\<forall>r rest parsed xs. ?c = Inr (Some r # rest) \<and> JSON_parse env r = Inr parsed
                \<and> events_of parsed = Inr (JArray xs) \<and> JNull \<in> set xs \<longrightarrow> ?x = Inr []"
  proof (intro allI impI)
    fix r rest parsed xs
    assume h: "?c = Inr (Some r # rest) \<and> JSON_parse env r = Inr parsed
                \<and> events_of parsed = Inr (JArray xs) \<and> JNull \<in> set xs"
    then obtain err where "mapM (map_event env u) xs = Inl err"
      using m by blast
    then show "?x = Inr []"
      using h by (simp add: extract_fst try_extract_def)
  qed
  show ?thesis
    by (intro conjI) (rule a b c d e f g)+
qed

theorem extraction_never_throws_witness:
  "fst (extractEventsWithGPT sample_env ''text'' ''/9j/'' (JString ''https://www.bluenote.net/newyork/'')
          (OpenAI (Some (JString ''sk-wrong''))) (0, [])) = Inr []
   \<and> fst (extractEventsWithGPT sample_env ''text'' ''/9j/'' (JString ''https://www.bluenote.net/newyork/'')
          (OpenAI (Some (JString ''sk-null''))) (0, [])) = Inr []
   \<and> fst (extractEventsWithGPT sample_env ''text'' ''/9j/'' (JString ''https://www.bluenote.net/newyork/'')
          (OpenAI (Some (JString ''sk-prose''))) (0, [])) = Inr []
   \<and> fst (extractEventsWithGPT sample_env ''text'' ''/9j/'' (JString ''https://www.bluenote.net/newyork/'')
          (OpenAI (Some (JString ''sk-string''))) (0, [])) = Inr []"
proof -
  have p: "JSON_parse sample_env ''No events found.'' = Inl (Error ''Unexpected token'')"
    by (simp add: sample_env_def sample_reply_def)
  have q: \<open>JSON_parse sample_env ''{"events":"none"}'' = Inr (JObject [(''events'', JString ''none'')])\<close>
    by (simp add: sample_env_def sample_reply_def)
  have v: "events_of (JObject [(''events'', JString ''none'')]) = Inr (JString ''none'')"
    by (simp add: events_of_def or_else_def)
  have c: "chat_completions_create sample_env (OpenAI (Some (JString ''sk-wrong''))) ''text'' ''/9j/''
             (JString ''https://www.bluenote.net/newyork/'') 0
             = (Inl (Error ''401 Incorrect API key provided''), 1)"
          "chat_completions_create sample_env (OpenAI (Some (JString ''sk-null''))) ''text'' ''/9j/''
             (JString ''https://www.bluenote.net/newyork/'') 0 = (Inr [None], 1)"
          "chat_completions_create sample_env (OpenAI (Some (JString ''sk-prose''))) ''text'' ''/9j/''
             (JString ''https://www.bluenote.net/newyork/'') 0 = (Inr [Some ''No events found.''], 1)"
          \<open>chat_completions_create sample_env (OpenAI (Some (JString ''sk-string''))) ''text'' ''/9j/''
             (JString ''https://www.bluenote.net/newyork/'') 0 = (Inr [Some ''{"events":"none"}''], 1)\<close>
    by (simp_all add: sample_env_def)
  show ?thesis
    using extraction_never_throws
            [of sample_env "''text''" "''/9j/''" "JString ''https://www.bluenote.net/newyork/''"
                "OpenAI (Some (JString ''sk-wrong''))" "(0, [])"]
          extraction_never_throws
            [of sample_env "''text''" "''/9j/''" "JString ''https://www.bluenote.net/newyork/''"
                "OpenAI (Some (JString ''sk-null''))" "(0, [])"]
          extraction_never_throws
            [of sample_env "''text''" "''/9j/''" "JString ''https://www.bluenote.net/newyork/''"
                "OpenAI (Some (JString ''sk-prose''))" "(0, [])"]
          extraction_never_throws
            [of sample_env "''text''" "''/9j/''" "JString ''https://www.bluenote.net/newyork/''"
                "OpenAI (Some (JString ''sk-string''))" "(0, [])"]
    by (simp add: c p q v)
qed

text \<open>
  Claim C5. Every event that the normalisation makes of an element of the model's array has:
  as name the element's \<^verbatim>\<open>eventName\<close>, else its \<^verbatim>\<open>name\<close>, else its \<^verbatim>\<open>title\<close>, else
  \<^verbatim>\<open>Unknown Event\<close>; as date and time the element's, or \<^verbatim>\<open>TBA\<close> when absent; as URL the
  element's, or the source URL when absent; and price and description as the element has
  them, absent when it has none. A value that is present but falsy counts as absent for
  the defaults. The array is the reply's \<^verbatim>\<open>events\<close>, else its \<^verbatim>\<open>data\<close>, else empty, and
  the result has one event per element, in order.
\<close>

theorem normalization_defaults:
  "(map_event env u ev = Inr e \<longrightarrow>
      eventName e = first_truthy [field ev ''eventName'', field ev ''name'', field ev ''title'']
                      (JString ''Unknown Event'')
      \<and> (field ev ''eventName'' = None \<and> field ev ''name'' = None \<and> field ev ''title'' = None \<longrightarrow>
           eventName e = JString ''Unknown Event'')
      \<and> date e = first_truthy [field ev ''date''] (JString ''TBA'')
      \<and> (field ev ''date'' = None \<longrightarrow> date e = JString ''TBA'')
      \<and> time e = first_truthy [field ev ''time''] (JString ''TBA'')
      \<and> (field ev ''time'' = None \<longrightarrow> time e = JString ''TBA'')
      \<and> url e = first_truthy [field ev ''url''] u
      \<and> (field ev ''url'' = None \<longrightarrow> url e = u)
      \<and> price e = field ev ''price''
      \<and> description e = field ev ''description'')
   \<and> (r \<noteq> [] \<and> JSON_parse env r = Inr parsed
        \<and> try_extract env u (Inr (Some r # rest)) = Inr es \<longrightarrow>
        (\<exists>xs. first_truthy [field parsed ''events'', field parsed ''data''] (JArray []) = JArray xs
           \<and> length es = length xs
           \<and> (\<forall>i < length xs. map_event env u (xs ! i) = Inr (es ! i))))"
proof (intro conjI impI)
  assume a: "map_event env u ev = Inr e"
  show "eventName e = first_truthy [field ev ''eventName'', field ev ''name'', field ev ''title'']
                      (JString ''Unknown Event'')"
    using a by (rule map_event_fields)
  show "eventName e = JString ''Unknown Event''"
    if "field ev ''eventName'' = None \<and> field ev ''name'' = None \<and> field ev ''title'' = None"
    using that map_event_fields(1) [OF a] by simp
  show "date e = first_truthy [field ev ''date''] (JString ''TBA'')"
    using a by (rule map_event_fields)
  show "date e = JString ''TBA''" if "field ev ''date'' = None"
    using that map_event_fields(2) [OF a] by simp
  show "time e = first_truthy [field ev ''time''] (JString ''TBA'')"
    using a by (rule map_event_fields)
  show "time e = JString ''TBA''" if "field ev ''time'' = None"
    using that map_event_fields(3) [OF a] by simp
  show "url e = first_truthy [field ev ''url''] u"
    using a by (rule map_event_fields)
  show "url e = u" if "field ev ''url'' = None"
    using that map_event_fields(4) [OF a] by simp
  show "price e = field ev ''price''"
    using a by (rule map_event_fields)
  show "description e = field ev ''description''"
    using a by (rule map_event_fields)
next
  assume h: "r \<noteq> [] \<and> JSON_parse env r = Inr parsed
        \<and> try_extract env u (Inr (Some r # rest)) = Inr es"
  then have "ebind (events_of parsed) (\<lambda>evs. Array_map (map_event env u) evs) = Inr es"
    using try_extract_reply [of r env parsed u rest] by simp
  then obtain v where v: "events_of parsed = Inr v" and m: "Array_map (map_event env u) v = Inr es"
    by (auto simp: ebind_eq_Inr)
  obtain xs where xs: "v = JArray xs" and mm: "mapM (map_event env u) xs = Inr es"
    using m Array_map_Inr by blast
  have "first_truthy [field parsed ''events'', field parsed ''data''] (JArray []) = JArray xs"
    using events_of_Inr [OF v] xs by simp
  then show "\<exists>xs. first_truthy [field parsed ''events'', field parsed ''data''] (JArray []) = JArray xs
           \<and> length es = length xs
           \<and> (\<forall>i < length xs. map_event env u (xs ! i) = Inr (es ! i))"
    using mapM_Inr [OF mm] by blast
qed

theorem normalization_defaults_witness:
  "eventName (sample_events ! 1) = JString ''Late Set''
   \<and> date (sample_events ! 1) = JString ''TBA''
   \<and> time (sample_events ! 1) = JString ''TBA''
   \<and> url (sample_events ! 1) = JString ''https://www.bluenote.net/newyork/''
   \<and> price (sample_events ! 1) = None
   \<and> description (sample_events ! 1) = None
   \<and> try_extract sample_env (JString ''https://www.bluenote.net/newyork/'')
        (Inr [Some sample_reply]) = Inr sample_events"
proof -
  have m: "map_event sample_env (JString ''https://www.bluenote.net/newyork/'')
             (JObject [(''title'', JString ''Late Set'')]) = Inr (sample_events ! 1)"
    by (simp add: sample_map_event_2 sample_events_def)
  have f: "field (JObject [(''title'', JString ''Late Set'')]) k
             = (if k = ''title'' then Some (JString ''Late Set'') else None)" for k
    by (simp add: field_def)
  show ?thesis
    using normalization_defaults
            [of sample_env "JString ''https://www.bluenote.net/newyork/''"
                "JObject [(''title'', JString ''Late Set'')]" "sample_events ! 1"
                sample_reply sample_parsed "[]" sample_events]
    by (simp add: m f sample_try_extract del: nth_Cons_numeral)
qed

section \<open>Facts about strings\<close>

lemma startsWith_iff: "startsWith s pat \<longleftrightarrow> (\<exists>post. s = pat @ post)"
  by (induction s pat rule: startsWith.induct) auto



lemma js_replace_leading: "pat \<noteq> [] \<Longrightarrow> js_replace (pat @ h) pat rep = rep @ h"
  by (cases pat) (auto simp: startsWith_iff)

lemma js_replace_absent: "\<not> js_includes h pat \<Longrightarrow> js_replace h pat rep = h"
  by (induction h) (auto split: if_splits)

section \<open>Facts about the content shaper\<close>



lemma elements_of_self: "e \<in> set (elements_of n) \<Longrightarrow> e \<in> set (elements_of e)"
proof (induction n arbitrary: e)
  case (Element tg as cs ov rd)
  then show ?case by auto
qed simp_all














lemma has_tag_remove_in: "has_tag T (remove_in n) = has_tag T n"
  by (cases n) (simp_all add: has_tag_def)

lemma elements_of_remove_in:
  "e \<in> set (elements_of (remove_in n)) \<Longrightarrow>
     \<not> has_tag [''script'', ''style'', ''noscript''] n \<Longrightarrow>
     \<not> has_tag [''script'', ''style'', ''noscript''] e"
proof (induction n arbitrary: e)
  case (Text s)
  then show ?case by simp
next
  case (Comment s)
  then show ?case by simp
next
  case (Element tg as cs ov rd)
  let ?T = "[''script'', ''style'', ''noscript'']"
  from Element.prems(1) consider
      "e = Element tg as (map remove_in (filter (\<lambda>c. \<not> has_tag ?T c) cs)) ov
             (case rd of None \<Rightarrow> None | Some ns \<Rightarrow> Some (map remove_in ns))"
    | c where "c \<in> set cs" and "\<not> has_tag ?T c" and "e \<in> set (elements_of (remove_in c))"
    by auto
  then show ?case
  proof cases
    case 1
    then show ?thesis using Element.prems(2) by (simp add: has_tag_def)
  next
    case 2
    then show ?thesis using Element.IH by blast
  qed
qed

lemma no_scripts_left:
  "e \<in> set (querySelectorAll_star (remove_scripts ns)) \<Longrightarrow>
     \<not> has_tag [''script'', ''style'', ''noscript''] e"
  using elements_of_remove_in
  by (auto simp: querySelectorAll_star_def remove_scripts_def)

lemma structuredData_empty: "structuredData (remove_scripts ns) = []"
proof -
  have "\<not> is_ld_json e" if "e \<in> set (querySelectorAll_star (remove_scripts ns))" for e
    using no_scripts_left [OF that]
    by (cases e) (auto simp: is_ld_json_def has_tag_def)
  then have "filter is_ld_json (querySelectorAll_star (remove_scripts ns)) = []"
    by (simp add: filter_empty_conv)
  then show ?thesis by (simp add: structuredData_def)
qed

section \<open>The venue default\<close>

lemma venue_default:
  assumes "\<not> ToBoolean (field ev ''venue'')" and "URL_hostname env u = Inr h"
    and "map_event env u ev = Inr e"
  shows "venue e = JString (js_replace h ''www.'' [])"
proof -
  have n: "ev \<noteq> JNull"
    using assms(3) map_event_JNull [of env u] by auto
  have g: "get_prop ev k = Inr (field ev k)" for k
    using n by (rule get_prop_field)
  have v: "or_else (field ev ''venue'')
             (ebind (URL_hostname env u) (\<lambda>hostname. Inr (JString (js_replace hostname ''www.'' []))))
           = Inr (JString (js_replace h ''www.'' []))"
    using assms(1,2) by (cases "field ev ''venue''") (simp_all add: or_else_def)
  show ?thesis
    using assms(3) unfolding map_event_def g ebind_Inr v
    by (auto simp: ebind_eq_Inr)
qed

lemma venue_leading_www:
  assumes "\<not> ToBoolean (field ev ''venue'')" and "URL_hostname env u = Inr (''www.'' @ h)"
    and "map_event env u ev = Inr e"
  shows "venue e = JString h"
  using venue_default [OF assms] js_replace_leading [of "''www.''" h "[]"] by simp

text \<open>
  Claim C6. With no venue in the model's event, the venue is the hostname with its first
  \<^verbatim>\<open>www.\<close> removed, wherever that stands: for the source
  \<^verbatim>\<open>https://tickets.www.example.com/\<close>, whose hostname does not start with \<^verbatim>\<open>www.\<close>, the
  venue is \<^verbatim>\<open>tickets.example.com\<close> and not the hostname unchanged.
\<close>

theorem venue_replace_not_anchored:
  "URL_hostname sample_env (JString ''https://tickets.www.example.com/'')
     = Inr ''tickets.www.example.com''
   \<and> startsWith ''tickets.www.example.com'' ''www.'' = False
   \<and> map_event sample_env (JString ''https://tickets.www.example.com/'')
        (JObject [(''eventName'', JString ''Band X'')])
      = Inr \<lparr>venue = JString ''tickets.example.com'', eventName = JString ''Band X'',
             date = JString ''TBA'', time = JString ''TBA'', price = None, description = None,
             url = JString ''https://tickets.www.example.com/''\<rparr>"
  by (simp add: map_event_def or_else_def sample_env_def)

section \<open>The shaped content\<close>

text \<open>
  Claim C7. The script elements are removed before the linked-data scripts are looked for,
  so the structured-data block is empty for every document: the sample page has one
  \<^verbatim>\<open>application/ld+json\<close> script, and its body is not in the output.
\<close>

theorem structured_data_always_empty:
  \<open>structuredData (remove_scripts ns) = []
   \<and> map textContent (filter is_ld_json (querySelectorAll_star (nodes sample_page)))
       = [''{"@type":"MusicEvent","name":"Band X"}'']
   \<and> page_evaluate sample_page =
       Inr ''URL: https://www.bluenote.net/newyork/\<newline>\<newline>STRUCTURED DATA:\<newline>\<newline>\<newline>PAGE CONTENT:\<newline>Band X - March 15 - $20 ''\<close>
proof (intro conjI)
  show "structuredData (remove_scripts ns) = []"
    by (rule structuredData_empty)
  show \<open>map textContent (filter is_ld_json (querySelectorAll_star (nodes sample_page)))
       = [''{"@type":"MusicEvent","name":"Band X"}'']\<close>
    by (simp add: sample_page_def querySelectorAll_star_def is_ld_json_def has_tag_def
          toLowerCase_def toLowerCase_char_def)
  show "page_evaluate sample_page =
       Inr ''URL: https://www.bluenote.net/newyork/\<newline>\<newline>STRUCTURED DATA:\<newline>\<newline>\<newline>PAGE CONTENT:\<newline>Band X - March 15 - $20 ''"
    by (rule sample_content)
qed

text \<open>
  A form whose control is named \<^verbatim>\<open>id\<close> makes the filter throw, and with it the whole
  callback: the page gives no content.
\<close>

lemma shadowed_id_throws:
  "keyword_filter keyword sample_form = Inl (Error ''el.id?.toLowerCase is not a function'')
   \<and> for_keywords eventKeywords [sample_form] []
       = Inl (Error ''el.id?.toLowerCase is not a function'')
   \<and> page_evaluate \<lparr>location_href = ''https://www.bluenote.net/newyork/'',
                     nodes = [Element ''HTML'' [] [Element ''BODY'' [] [sample_form] [] None] [] None],
                     document_named = []\<rparr>
       = Inl (Error ''el.id?.toLowerCase is not a function'')"
proof -
  have a: "keyword_filter k sample_form = Inl (Error ''el.id?.toLowerCase is not a function'')"
    for k
    by (simp add: keyword_filter_def text_lower_def id_lower_def property_object_def
          sample_form_def)
  have h: "keyword_filter k (Element ''HTML'' [] cs [] None) = Inr (js_includes (toLowerCase (concat (map textContent cs))) k \<or> js_includes [] k)"
    for k cs
    by (simp add: keyword_filter_def text_lower_def id_lower_def property_object_def
          className_string_def getAttribute_def toLowerCase_def)
  have b: "keyword_filter k (Element ''BODY'' [] cs [] None) = Inr (js_includes (toLowerCase (concat (map textContent cs))) k \<or> js_includes [] k)"
    for k cs
    by (simp add: keyword_filter_def text_lower_def id_lower_def property_object_def
          className_string_def getAttribute_def toLowerCase_def)
  have e: "elements_of sample_form = [sample_form, Element ''INPUT'' [(''name'', ''id'')] [] [] None]"
    by (simp add: sample_form_def)
  have r: "remove_scripts [Element ''HTML'' [] [Element ''BODY'' [] [sample_form] [] None] [] None]
             = [Element ''HTML'' [] [Element ''BODY'' [] [sample_form] [] None] [] None]"
    by (simp add: remove_scripts_def has_tag_def sample_form_def toLowerCase_def
          toLowerCase_char_def)
  have k: "for_keywords eventKeywords [sample_form] []
             = Inl (Error ''el.id?.toLowerCase is not a function'')"
    by (simp add: eventKeywords_def querySelectorAll_star_def e a)
  have p: "for_keywords eventKeywords
             [Element ''HTML'' [] [Element ''BODY'' [] [sample_form] [] None] [] None] []
             = Inl (Error ''el.id?.toLowerCase is not a function'')"
    by (simp add: eventKeywords_def querySelectorAll_star_def e a h b)
  show ?thesis
    by (simp add: a k page_evaluate_def r page_content_def p)
qed













end
